theory Spec2Isabelle
  imports Complex_Main "HOL-Library.Char_ord" "HOL-Library.List_Lexorder" "HOL-Library.Sublist"
begin

section \<open>The persistent store\<close>

text \<open>
  The views of \<^verbatim>\<open>gestion/views/api_views.py\<close> read and write Django model tables.
  Each table is the list of its rows in the order in which a queryset over it yields
  them and \<^verbatim>\<open>.first()\<close> picks among them: the default ordering of the model, which is
  the primary key when the model declares none. The model classes themselves are declared
  outside the file; a row carries the attributes the views read or write, a foreign key
  being the key of the row it refers to. A \<^verbatim>\<open>Decimal\<close> is a rational number, a Python
  \<^verbatim>\<open>int\<close> is an \<open>int\<close>, and a character of a string is a code point below 256.
  \<open>z_label\<close> is the text of \<^verbatim>\<open>str(zone)\<close>, which the model class computes. Sums and
  products of decimals are exact, as the decimal context computes them up to its 28 digits.
\<close>

record product =
  p_id :: int
  p_name :: string
  p_sku :: string
  p_precio_venta :: "rat option"
  p_is_active :: bool

record zone =
  z_id :: int
  z_name :: string
  z_label :: string
  z_warehouse_id :: int
  z_is_active :: bool

record inventory =
  inv_id :: int
  inv_product_id :: int
  inv_zone_id :: int
  inv_quantity :: int

record sale =
  sale_id :: int
  sale_client_id :: "int option"
  sale_user_id :: int
  sale_total_amount :: rat

record sale_item =
  si_id :: int
  si_sale_id :: int
  si_product_id :: int
  si_quantity :: int
  si_price_at_sale :: rat

record product_supplier =
  ps_product_id :: int
  ps_supplier_id :: int
  ps_costo :: "rat option"

record supplier_order =
  so_id :: int
  so_supplier_id :: int
  so_status :: string

record supplier_order_item =
  soi_id :: int
  soi_order_id :: int
  soi_product_id :: int
  soi_quantity :: int
  soi_unit_price :: "rat option"

text \<open>
  What a column accepts is declared with the model classes and enforced by the database;
  a write outside it raises, whatever the exception class. These bounds are parameters
  of the store: the least and the greatest value of each quantity column (an unsigned
  column starts at zero), the magnitude that each decimal column stays below, whether
  the unit price of an order item may be null, and the greatest number the database
  reads as the bound of a slice. A sale refers to a client by its key, which the
  database checks against the client table when the transaction commits.
\<close>

record schema =
  inventory_quantity_range :: "int \<times> int"
  sale_item_quantity_range :: "int \<times> int"
  order_item_quantity_range :: "int \<times> int"
  price_at_sale_limit :: rat
  total_amount_limit :: rat
  unit_price_limit :: rat
  unit_price_nullable :: bool
  offset_limit :: int

record db =
  schema :: schema
  clients :: "int list"
  zones :: "zone list"
  products :: "product list"
  inventory_rows :: "inventory list"
  sales :: "sale list"
  sale_items :: "sale_item list"
  product_suppliers :: "product_supplier list"
  supplier_orders :: "supplier_order list"
  supplier_order_items :: "supplier_order_item list"

record user =
  u_id :: int
  u_is_superuser :: bool
  u_profile_role :: "string option"

datatype model_name = Product | Inventory | SupplierOrder

datatype exn =
  DoesNotExist model_name
  | MultipleObjectsReturned model_name
  | ZeroDivisionError
  | ValueError
  | NegativeIndex
  | IntegrityError
  | OutOfRange
  | TypeError

subsection \<open>Queryset operations\<close>

text \<open>
  \<^verbatim>\<open>Model.objects.get(...)\<close> returns the only matching row, and raises
  \<^verbatim>\<open>DoesNotExist\<close> for none and \<^verbatim>\<open>MultipleObjectsReturned\<close> for several.
  \<^verbatim>\<open>.filter(...).first()\<close> is \<^const>\<open>find\<close>.
\<close>

definition qs_get :: "model_name \<Rightarrow> ('a \<Rightarrow> bool) \<Rightarrow> 'a list \<Rightarrow> exn + 'a" where
  "qs_get m P rows =
     (case filter P rows of
        [] \<Rightarrow> Inl (DoesNotExist m)
      | [r] \<Rightarrow> Inr r
      | _ # _ # _ \<Rightarrow> Inl (MultipleObjectsReturned m))"

definition in_range :: "int \<times> int \<Rightarrow> int \<Rightarrow> bool" where
  "in_range bounds n \<longleftrightarrow> fst bounds \<le> n \<and> n \<le> snd bounds"

definition under_limit :: "rat \<Rightarrow> rat \<Rightarrow> bool" where
  "under_limit limit v \<longleftrightarrow> \<bar>v\<bar> < limit"

text \<open>An insert takes the next key of the table's sequence.\<close>

definition new_id :: "int list \<Rightarrow> int" where
  "new_id ids = 1 + fold max ids 0"

subsection \<open>Strings\<close>

fun str_nat :: "nat \<Rightarrow> string" where
  "str_nat n =
     (if n < 10 then [char_of (48 + n)]
      else str_nat (n div 10) @ [char_of (48 + n mod 10)])"

declare str_nat.simps [simp del]

definition str_int :: "int \<Rightarrow> string" where
  "str_int i = (if i < 0 then CHR ''-'' # str_nat (nat (- i)) else str_nat (nat i))"

text \<open>\<^verbatim>\<open>f"{product_id}"\<close> for a key that is absent from the cart line prints \<^verbatim>\<open>None\<close>.\<close>

definition str_opt_int :: "int option \<Rightarrow> string" where
  "str_opt_int v = (case v of None \<Rightarrow> ''None'' | Some i \<Rightarrow> str_int i)"

fun join :: "string \<Rightarrow> string list \<Rightarrow> string" where
  "join sep [] = []"
| "join sep [x] = x"
| "join sep (x # y # ys) = x @ sep @ join sep (y # ys)"

text \<open>
  \<^verbatim>\<open>name__icontains\<close>: the needle occurs in the text, letters compared without case.
  The fold is that of the ASCII letters.
\<close>

definition lower_char :: "char \<Rightarrow> char" where
  "lower_char c =
     (let n = (of_char c :: nat) in if 65 \<le> n \<and> n \<le> 90 then char_of (n + 32) else c)"

fun starts_with :: "'a list \<Rightarrow> 'a list \<Rightarrow> bool" where
  "starts_with [] ys = True"
| "starts_with (x # xs) [] = False"
| "starts_with (x # xs) (y # ys) = (x = y \<and> starts_with xs ys)"

fun contains :: "'a list \<Rightarrow> 'a list \<Rightarrow> bool" where
  "contains needle [] = (needle = [])"
| "contains needle (y # ys) = (starts_with needle (y # ys) \<or> contains needle ys)"

definition icontains :: "string \<Rightarrow> string \<Rightarrow> bool" where
  "icontains needle text = contains (map lower_char needle) (map lower_char text)"

section \<open>The sales zone\<close>

definition get_sales_zone :: "db \<Rightarrow> zone option" where
  "get_sales_zone d =
     (case find (\<lambda>z. icontains ''venta'' (z_name z) \<and> z_is_active z) (zones d) of
        Some sales_zone \<Rightarrow> Some sales_zone
      | None \<Rightarrow> find z_is_active (zones d))"

section \<open>Checkout\<close>

record cart_item =
  item_id :: "int option"
  item_quantity :: "int option"

record sale_request =
  client_id :: "int option"
  cart :: "cart_item list"

text \<open>
  The response of \<^verbatim>\<open>process_sale\<close>. A success carries the sale's key and the total that
  the message is formatted from; an error carries the HTTP status and the \<^verbatim>\<open>errors\<close>
  text; a server error is status 500 with the text of the exception.
\<close>

datatype sale_response =
  Sale_success int rat
  | Sale_error nat string
  | Sale_server_error exn

definition msg_invalid_json :: string where
  "msg_invalid_json = ''JSON inv'' @ [CHR 0xE1] @ ''lido''"

definition msg_cart_empty :: string where
  "msg_cart_empty = ''El carrito est'' @ [CHR 0xE1] @ '' vac'' @ [CHR 0xED] @ ''o''"

definition msg_no_sales_zone :: string where
  "msg_no_sales_zone = ''Zona de ventas no configurada''"

text \<open>\<^verbatim>\<open>item.get('quantity', 0)\<close>: a quantity that is present is an integer.\<close>

definition quantity_of :: "cart_item \<Rightarrow> int" where
  "quantity_of item = (case item_quantity item of None \<Rightarrow> 0 | Some q \<Rightarrow> q)"

definition get_active_product :: "db \<Rightarrow> int option \<Rightarrow> exn + product" where
  "get_active_product d product_id =
     qs_get Product (\<lambda>p. Some (p_id p) = product_id \<and> p_is_active p) (products d)"

definition get_product :: "db \<Rightarrow> int option \<Rightarrow> exn + product" where
  "get_product d product_id =
     qs_get Product (\<lambda>p. Some (p_id p) = product_id) (products d)"

definition get_inventory :: "db \<Rightarrow> product \<Rightarrow> zone \<Rightarrow> exn + inventory" where
  "get_inventory d product sales_zone =
     qs_get Inventory
       (\<lambda>r. inv_product_id r = p_id product \<and> inv_zone_id r = z_id sales_zone)
       (inventory_rows d)"

text \<open>
  The body of the validation loop: the message appended for the line, if any. An
  exception other than the two \<^verbatim>\<open>DoesNotExist\<close> the loop catches leaves the loop.
\<close>

definition check_item :: "db \<Rightarrow> zone \<Rightarrow> cart_item \<Rightarrow> exn + string option" where
  "check_item d sales_zone item =
     (let product_id = item_id item; quantity = quantity_of item in
      case get_active_product d product_id of
        Inl e \<Rightarrow>
          if e = DoesNotExist Product
          then Inr (Some (''Producto con ID '' @ str_opt_int product_id @ '' no encontrado''))
          else Inl e
      | Inr product \<Rightarrow>
          (case get_inventory d product sales_zone of
             Inl e \<Rightarrow>
               if e = DoesNotExist Inventory
               then Inr (Some (''No hay stock de '' @ p_name product @ '' en la zona de ventas''))
               else Inl e
           | Inr inventory \<Rightarrow>
               if inv_quantity inventory < quantity
               then Inr (Some (''Stock insuficiente para '' @ p_name product @ ''. ''
                          @ ''Disponible: '' @ str_int (inv_quantity inventory)
                          @ '', Solicitado: '' @ str_int quantity))
               else Inr None))"

fun validate_stock :: "db \<Rightarrow> zone \<Rightarrow> cart_item list \<Rightarrow> string list \<Rightarrow> exn + string list" where
  "validate_stock d sales_zone [] errors = Inr errors"
| "validate_stock d sales_zone (item # rest) errors =
     (case check_item d sales_zone item of
        Inl e \<Rightarrow> Inl e
      | Inr None \<Rightarrow> validate_stock d sales_zone rest errors
      | Inr (Some msg) \<Rightarrow> validate_stock d sales_zone rest (errors @ [msg]))"

text \<open>\<^verbatim>\<open>product.precio_venta or Decimal('0.00')\<close>\<close>

definition sale_price_of :: "product \<Rightarrow> rat" where
  "sale_price_of product =
     (case p_precio_venta product of None \<Rightarrow> 0 | Some v \<Rightarrow> if v = 0 then 0 else v)"

text \<open>\<^verbatim>\<open>row.save()\<close> of a row read from the table writes it over the row of its key.\<close>

definition save_inventory :: "inventory \<Rightarrow> inventory list \<Rightarrow> inventory list" where
  "save_inventory row rows = map (\<lambda>r. if inv_id r = inv_id row then row else r) rows"

definition save_sale :: "sale \<Rightarrow> sale list \<Rightarrow> sale list" where
  "save_sale row rows = map (\<lambda>r. if sale_id r = sale_id row then row else r) rows"

text \<open>
  The commit loop: one \<^verbatim>\<open>SaleItem\<close> and one stock decrement per cart line. The insert
  of the sale item and the save of the inventory row raise when a value is outside its
  column.
\<close>

fun sell_items :: "db \<Rightarrow> zone \<Rightarrow> int \<Rightarrow> cart_item list \<Rightarrow> rat \<Rightarrow> exn + (db \<times> rat)" where
  "sell_items d sales_zone sid [] total_amount = Inr (d, total_amount)"
| "sell_items d sales_zone sid (item # rest) total_amount =
     (let product_id = item_id item; quantity = quantity_of item in
      case get_product d product_id of
        Inl e \<Rightarrow> Inl e
      | Inr product \<Rightarrow>
          (case get_inventory d product sales_zone of
             Inl e \<Rightarrow> Inl e
           | Inr inventory \<Rightarrow>
               let sale_price = sale_price_of product;
                   item_price = sale_price * of_int quantity
               in
                 if \<not> (in_range (sale_item_quantity_range (schema d)) quantity \<and>
                         under_limit (price_at_sale_limit (schema d)) sale_price)
                 then Inl OutOfRange
                 else
                   let d1 = d\<lparr>sale_items := sale_items d @
                              [\<lparr>si_id = new_id (map si_id (sale_items d)), si_sale_id = sid,
                                si_product_id = p_id product, si_quantity = quantity,
                                si_price_at_sale = sale_price\<rparr>]\<rparr>
                   in
                     if \<not> in_range (inventory_quantity_range (schema d))
                              (inv_quantity inventory - quantity)
                     then Inl OutOfRange
                     else
                       let d2 = d1\<lparr>inventory_rows :=
                                  save_inventory
                                    (inventory\<lparr>inv_quantity := inv_quantity inventory - quantity\<rparr>)
                                    (inventory_rows d1)\<rparr>
                       in sell_items d2 sales_zone sid rest (total_amount + item_price)))"

text \<open>
  \<^verbatim>\<open>process_sale\<close>. The body of the request is \<open>None\<close> when it is not JSON. The block
  under \<^verbatim>\<open>transaction.atomic()\<close> either commits the store it reaches or, on an exception,
  leaves the store as it was: a total outside its column, when the sale is created with
  a total of zero or saved with the final one, and a client reference that names no
  client, found when the block commits. The sale keeps the client reference it is given
  (\<^verbatim>\<open>client_id if client_id else None\<close>) and the key of the user of the request.
\<close>

definition process_sale :: "db \<Rightarrow> user \<Rightarrow> sale_request option \<Rightarrow> db \<times> sale_response" where
  "process_sale d request_user body =
     (case body of
        None \<Rightarrow> (d, Sale_error 400 msg_invalid_json)
      | Some data \<Rightarrow>
          if cart data = [] then (d, Sale_error 400 msg_cart_empty)
          else
            (case get_sales_zone d of
               None \<Rightarrow> (d, Sale_error 500 msg_no_sales_zone)
             | Some sales_zone \<Rightarrow>
                 (case validate_stock d sales_zone (cart data) [] of
                    Inl e \<Rightarrow> (d, Sale_server_error e)
                  | Inr errors \<Rightarrow>
                      if errors \<noteq> [] then (d, Sale_error 400 (join ''<br>'' errors))
                      else
                        let sid = new_id (map sale_id (sales d));
                            sale = \<lparr>sale_id = sid,
                                    sale_client_id =
                                      (if client_id data = Some 0 then None else client_id data),
                                    sale_user_id = u_id request_user,
                                    sale_total_amount = 0\<rparr>;
                            d1 = d\<lparr>sales := sales d @ [sale]\<rparr>
                        in
                          if \<not> under_limit (total_amount_limit (schema d)) 0
                          then (d, Sale_server_error OutOfRange)
                          else
                            (case sell_items d1 sales_zone sid (cart data) 0 of
                               Inl e \<Rightarrow> (d, Sale_server_error e)
                             | Inr (d2, total_amount) \<Rightarrow>
                                 if \<not> under_limit (total_amount_limit (schema d)) total_amount
                                 then (d, Sale_server_error OutOfRange)
                                 else if \<not> (case sale_client_id sale of
                                                None \<Rightarrow> True
                                              | Some c \<Rightarrow> c \<in> set (clients d))
                                 then (d, Sale_server_error IntegrityError)
                                 else
                                   (d2\<lparr>sales :=
                                         save_sale (sale\<lparr>sale_total_amount := total_amount\<rparr>)
                                           (sales d2)\<rparr>,
                                    Sale_success sid total_amount)))))"

section \<open>Read-only endpoints\<close>

record stock_entry =
  se_zone_id :: int
  se_zone_name :: string
  se_stock :: int

text \<open>
  \<^verbatim>\<open>get_product_stock_info\<close>: the rows of the product with \<^verbatim>\<open>quantity__gt=0\<close>, joined
  with their zone by \<^verbatim>\<open>select_related\<close>. The result is the \<^verbatim>\<open>stock_info\<close> list of the
  success response; nothing in the body raises the exception its handler names.
\<close>

definition get_product_stock_info :: "db \<Rightarrow> int \<Rightarrow> stock_entry list" where
  "get_product_stock_info d product_id =
     (let stock_items =
            filter (\<lambda>r. inv_product_id r = product_id \<and> inv_quantity r > 0) (inventory_rows d)
      in List.map_filter
           (\<lambda>item. case find (\<lambda>z. z_id z = inv_zone_id item) (zones d) of
                      None \<Rightarrow> None
                    | Some zone \<Rightarrow>
                        Some \<lparr>se_zone_id = z_id zone, se_zone_name = z_label zone,
                              se_stock = inv_quantity item\<rparr>)
           stock_items)"

record product_entry =
  pe_id :: int
  pe_name :: string
  pe_sku :: string
  pe_price :: rat
  pe_stock :: int

text \<open>
  The loop body shared by the search and the listing:
  \<^verbatim>\<open>sum(item.quantity for item in product.stock.all())\<close>, where \<^verbatim>\<open>product.stock\<close> is the
  set of the inventory rows that refer to the product, and \<^verbatim>\<open>product.precio_venta or 0\<close>
  (the response renders it as a JSON number).
\<close>

definition total_stock :: "db \<Rightarrow> product \<Rightarrow> int" where
  "total_stock d product =
     sum_list (map inv_quantity
       (filter (\<lambda>item. inv_product_id item = p_id product) (inventory_rows d)))"

definition product_result :: "db \<Rightarrow> product \<Rightarrow> product_entry" where
  "product_result d product =
     \<lparr>pe_id = p_id product, pe_name = p_name product, pe_sku = p_sku product,
      pe_price = (case p_precio_venta product of None \<Rightarrow> 0 | Some v \<Rightarrow> v),
      pe_stock = total_stock d product\<rparr>"

record search_params =
  param_q :: "string option"
  param_query :: "string option"

text \<open>
  \<^verbatim>\<open>request.query_params.get('q', '') or request.query_params.get('query', '')\<close>
\<close>

definition search_text :: "search_params \<Rightarrow> string" where
  "search_text params =
     (let q = (case param_q params of None \<Rightarrow> [] | Some s \<Rightarrow> s)
      in if q \<noteq> [] then q else (case param_query params of None \<Rightarrow> [] | Some s \<Rightarrow> s))"

text \<open>
  \<^verbatim>\<open>search_products_for_sale\<close> returns its response together with the tables it has
  queried, in order. The prefetch of the inventory runs when the product query returns
  rows. An exception would give the status 500 response.
\<close>

datatype search_response =
  Search_success "product_entry list"
  | Search_error exn

definition search_products_for_sale :: "db \<Rightarrow> search_params \<Rightarrow> search_response \<times> model_name list" where
  "search_products_for_sale d params =
     (let query = search_text params in
      if length query < 2 then (Search_success [], [])
      else
        let found = take 10
              (filter (\<lambda>p. (icontains query (p_name p) \<or> icontains query (p_sku p)) \<and> p_is_active p)
                 (products d))
        in (Search_success (map (product_result d) found),
            if found = [] then [Product] else [Product, Inventory]))"

datatype int_param = Absent | Given int | Malformed

record listing_params =
  param_page :: int_param
  param_page_size :: int_param

record listing =
  l_products :: "product_entry list"
  l_count :: int
  l_page :: int
  l_page_size :: int
  l_total_pages :: int

text \<open>
  \<^verbatim>\<open>int(request.query_params.get(name, default))\<close>: a parameter that is present is the
  text of an integer, or \<^verbatim>\<open>int\<close> raises.
\<close>

definition int_of_param :: "int_param \<Rightarrow> int \<Rightarrow> exn + int" where
  "int_of_param v dflt =
     (case v of Absent \<Rightarrow> Inr dflt | Given n \<Rightarrow> Inr n | Malformed \<Rightarrow> Inl ValueError)"

text \<open>
  \<^verbatim>\<open>get_all_products_for_sale\<close>: the active products ordered by name (here by the
  order of the code points; the collation is the database's), one page of them. A
  queryset refuses a slice with a negative bound, reads no row for an empty slice, and
  otherwise sends the offset and the length of the slice to the database, which raises
  on a number beyond what it reads; \<^verbatim>\<open>//\<close> is the floor division. Every exception
  becomes the status 500 response, here the left summand.
\<close>

definition get_all_products_for_sale :: "db \<Rightarrow> listing_params \<Rightarrow> exn + listing" where
  "get_all_products_for_sale d params =
     (case int_of_param (param_page params) 1 of
        Inl e \<Rightarrow> Inl e
      | Inr page \<Rightarrow>
          (case int_of_param (param_page_size params) 50 of
             Inl e \<Rightarrow> Inl e
           | Inr page_size \<Rightarrow>
               let offset = (page - 1) * page_size;
                   active = sort_key p_name (filter p_is_active (products d))
               in if offset < 0 \<or> offset + page_size < 0 then Inl NegativeIndex
                  else if 0 < page_size \<and>
                          (offset_limit (schema d) < offset \<or> offset_limit (schema d) < page_size)
                  then Inl OutOfRange
                  else
                    let page_rows = drop (nat offset) (take (nat (offset + page_size)) active);
                        total_count = int (length (filter p_is_active (products d)));
                        results = map (product_result d) page_rows
                    in if page_size = 0 then Inl ZeroDivisionError
                       else Inr \<lparr>l_products = results, l_count = total_count, l_page = page,
                                 l_page_size = page_size,
                                 l_total_pages = (total_count + page_size - 1) div page_size\<rparr>))"

section \<open>Supplier orders\<close>

record order_request =
  req_product_id :: "int option"
  req_quantity :: "int option"

record order_line =
  ol_id :: int
  ol_product_name :: string
  ol_quantity :: int
  ol_unit_price :: rat
  ol_subtotal :: rat

record order_result =
  res_action :: string
  res_item :: supplier_order_item
  res_all_items :: "order_line list"
  res_total_items :: nat
  res_total_quantity :: int

datatype order_response =
  Order_success order_result
  | Order_error nat string
  | Order_server_error exn

definition msg_no_permission :: string where
  "msg_no_permission = ''No tienes permisos''"

definition msg_not_pending :: string where
  "msg_not_pending =
     ''No se pueden modificar '' @ [CHR 0xF3] @ ''rdenes que no est'' @ [CHR 0xE1] @ ''n pendientes''"

definition msg_bad_quantity :: string where
  "msg_bad_quantity = ''La cantidad debe ser mayor a 0''"

definition msg_other_supplier :: string where
  "msg_other_supplier = ''Este producto no pertenece al proveedor de la orden''"

definition msg_order_missing :: string where
  "msg_order_missing = ''Orden no encontrada''"

definition msg_product_missing :: string where
  "msg_product_missing = ''Producto no encontrado''"

text \<open>
  \<^verbatim>\<open>request.user.is_superuser or hasattr(request.user, 'profile') and
  (role == 'admin' or role == 'bodega')\<close>
\<close>

definition may_edit_orders :: "user \<Rightarrow> bool" where
  "may_edit_orders u \<longleftrightarrow>
     u_is_superuser u \<or>
     (case u_profile_role u of None \<Rightarrow> False | Some role \<Rightarrow> role = ''admin'' \<or> role = ''bodega'')"

text \<open>\<^verbatim>\<open>product_supplier.costo if product_supplier.costo else product.precio_venta\<close>\<close>

definition resolve_unit_price :: "product_supplier \<Rightarrow> product \<Rightarrow> rat option" where
  "resolve_unit_price product_supplier product =
     (case ps_costo product_supplier of
        None \<Rightarrow> p_precio_venta product
      | Some c \<Rightarrow> if c \<noteq> 0 then Some c else p_precio_venta product)"

definition save_order_item :: "supplier_order_item \<Rightarrow> supplier_order_item list \<Rightarrow> supplier_order_item list" where
  "save_order_item row rows = map (\<lambda>r. if soi_id r = soi_id row then row else r) rows"

text \<open>
  The listing of an order's items: the rows of the order joined with their product, in
  the loop that fills \<^verbatim>\<open>items_data\<close>.

  Modelled from the spec: \<^verbatim>\<open>subtotal\<close>, a property of the model class
  \<^verbatim>\<open>SupplierOrderItem\<close>, is the quantity of the row times its unit price; on a row
  without a unit price the product raises \<^verbatim>\<open>TypeError\<close>.
\<close>

fun order_lines_of :: "(supplier_order_item \<times> product) list \<Rightarrow> exn + order_line list" where
  "order_lines_of [] = Inr []"
| "order_lines_of ((order_item, product) # rest) =
     (case soi_unit_price order_item of
        None \<Rightarrow> Inl TypeError
      | Some price \<Rightarrow>
          (case order_lines_of rest of
             Inl e \<Rightarrow> Inl e
           | Inr items_data \<Rightarrow>
               Inr (\<lparr>ol_id = soi_id order_item, ol_product_name = p_name product,
                     ol_quantity = soi_quantity order_item, ol_unit_price = price,
                     ol_subtotal = of_int (soi_quantity order_item) * price\<rparr> # items_data)))"

definition order_lines :: "db \<Rightarrow> int \<Rightarrow> exn + order_line list" where
  "order_lines d order_pk =
     order_lines_of
       (List.map_filter
          (\<lambda>order_item. case find (\<lambda>p. p_id p = soi_product_id order_item) (products d) of
               None \<Rightarrow> None
             | Some product \<Rightarrow> Some (order_item, product))
          (filter (\<lambda>order_item. soi_order_id order_item = order_pk) (supplier_order_items d)))"

text \<open>
  The response after the item is saved. The view runs outside a transaction: an
  exception in the listing leaves the saved item in the store.
\<close>

definition order_summary :: "db \<Rightarrow> int \<Rightarrow> string \<Rightarrow> supplier_order_item \<Rightarrow> order_response" where
  "order_summary d order_pk action item =
     (case order_lines d order_pk of
        Inl e \<Rightarrow> Order_server_error e
      | Inr items_data \<Rightarrow>
          Order_success
            \<lparr>res_action = action, res_item = item, res_all_items = items_data,
             res_total_items = length items_data,
             res_total_quantity = sum_list (map ol_quantity items_data)\<rparr>)"

text \<open>
  What the database makes of the insert or the update of an order item: the exception it
  raises, if any.
\<close>

definition order_item_refused :: "db \<Rightarrow> supplier_order_item \<Rightarrow> exn option" where
  "order_item_refused d item =
     (case soi_unit_price item of
        None \<Rightarrow>
          if \<not> unit_price_nullable (schema d) then Some IntegrityError
          else if \<not> in_range (order_item_quantity_range (schema d)) (soi_quantity item)
          then Some OutOfRange else None
      | Some price \<Rightarrow>
          if \<not> (in_range (order_item_quantity_range (schema d)) (soi_quantity item) \<and>
                  under_limit (unit_price_limit (schema d)) price)
          then Some OutOfRange else None)"

text \<open>
  \<^verbatim>\<open>add_product_to_order\<close>. The body is \<open>None\<close> when it is not JSON; a quantity absent
  from it is 1, and one that is present is an integer.
\<close>

definition add_product_to_order :: "db \<Rightarrow> user \<Rightarrow> int \<Rightarrow> order_request option \<Rightarrow> db \<times> order_response" where
  "add_product_to_order d request_user order_pk body =
     (if \<not> may_edit_orders request_user then (d, Order_error 403 msg_no_permission)
      else
        case qs_get SupplierOrder (\<lambda>order. so_id order = order_pk) (supplier_orders d) of
          Inl e \<Rightarrow>
            if e = DoesNotExist SupplierOrder then (d, Order_error 404 msg_order_missing)
            else (d, Order_server_error e)
        | Inr order \<Rightarrow>
            if so_status order \<noteq> ''PENDING'' then (d, Order_error 400 msg_not_pending)
            else
              (case body of
                 None \<Rightarrow> (d, Order_error 400 msg_invalid_json)
               | Some data \<Rightarrow>
                   let product_id = req_product_id data;
                       quantity = (case req_quantity data of None \<Rightarrow> 1 | Some q \<Rightarrow> q)
                   in
                     if quantity \<le> 0 then (d, Order_error 400 msg_bad_quantity)
                     else
                       (case get_active_product d product_id of
                          Inl e \<Rightarrow>
                            if e = DoesNotExist Product then (d, Order_error 404 msg_product_missing)
                            else (d, Order_server_error e)
                        | Inr product \<Rightarrow>
                            (case find (\<lambda>ps. ps_product_id ps = p_id product \<and>
                                               ps_supplier_id ps = so_supplier_id order)
                                    (product_suppliers d) of
                               None \<Rightarrow> (d, Order_error 400 msg_other_supplier)
                             | Some product_supplier \<Rightarrow>
                                 let unit_price = resolve_unit_price product_supplier product in
                                 (case find (\<lambda>i. soi_order_id i = so_id order \<and>
                                                   soi_product_id i = p_id product)
                                         (supplier_order_items d) of
                                    Some existing_item \<Rightarrow>
                                      let item = existing_item
                                            \<lparr>soi_quantity := soi_quantity existing_item + quantity,
                                             soi_unit_price := unit_price\<rparr>
                                      in
                                        (case order_item_refused d item of
                                           Some e \<Rightarrow> (d, Order_server_error e)
                                         | None \<Rightarrow>
                                             let d1 = d\<lparr>supplier_order_items :=
                                                        save_order_item item (supplier_order_items d)\<rparr>
                                             in (d1, order_summary d1 (so_id order) ''updated'' item))
                                  | None \<Rightarrow>
                                      let item = \<lparr>soi_id = new_id (map soi_id (supplier_order_items d)),
                                                  soi_order_id = so_id order,
                                                  soi_product_id = p_id product,
                                                  soi_quantity = quantity,
                                                  soi_unit_price = unit_price\<rparr>
                                      in
                                        (case order_item_refused d item of
                                           Some e \<Rightarrow> (d, Order_server_error e)
                                         | None \<Rightarrow>
                                             let d1 = d\<lparr>supplier_order_items :=
                                                        supplier_order_items d @ [item]\<rparr>
                                             in (d1, order_summary d1 (so_id order) ''created'' item)))))))"

section \<open>Vocabulary of the properties\<close>

text \<open>
  The key constraints of the store: the primary keys of products and inventory rows, and
  one inventory row per product and zone. Without them \<^verbatim>\<open>get\<close> can raise
  \<^verbatim>\<open>MultipleObjectsReturned\<close>, which \<^verbatim>\<open>process_sale\<close> reports as a server error.

  \<open>sold z items\<close> is what the commit loop over \<open>items\<close> makes of an inventory row;
  \<open>sold_line\<close> relates a cart line to the sale item created for it; \<open>line_in_stock\<close> is
  a line that passes the validation, \<open>line_covered\<close> a line whose quantity some row of the
  sales zone for its product covers, and \<open>line_message\<close> the message of a line that fails.
\<close>

definition inv_key :: "inventory \<Rightarrow> int \<times> int" where
  "inv_key r = (inv_product_id r, inv_zone_id r)"

definition keys_ok :: "db \<Rightarrow> bool" where
  "keys_ok d \<longleftrightarrow>
     distinct (map p_id (products d)) \<and> distinct (map inv_id (inventory_rows d)) \<and>
     distinct (map inv_key (inventory_rows d))"

definition requested :: "cart_item list \<Rightarrow> int \<Rightarrow> int" where
  "requested items pid = sum_list (map quantity_of (filter (\<lambda>i. item_id i = Some pid) items))"

definition sold :: "zone \<Rightarrow> cart_item list \<Rightarrow> inventory \<Rightarrow> inventory" where
  "sold z items r =
     (if inv_zone_id r = z_id z
      then r\<lparr>inv_quantity := inv_quantity r - requested items (inv_product_id r)\<rparr> else r)"

definition resolvable :: "db \<Rightarrow> zone \<Rightarrow> cart_item \<Rightarrow> bool" where
  "resolvable d z item \<longleftrightarrow>
     (\<exists>p \<in> set (products d). Some (p_id p) = item_id item \<and>
        (p_id p, z_id z) \<in> set (map inv_key (inventory_rows d)))"

definition sold_line :: "db \<Rightarrow> int \<Rightarrow> cart_item \<Rightarrow> sale_item \<Rightarrow> bool" where
  "sold_line d sid item si \<longleftrightarrow>
     si_sale_id si = sid \<and> Some (si_product_id si) = item_id item \<and>
     si_quantity si = quantity_of item \<and>
     (\<exists>p \<in> set (products d). p_id p = si_product_id si \<and>
        si_price_at_sale si = (case p_precio_venta p of None \<Rightarrow> 0 | Some v \<Rightarrow> v))"

definition line_in_stock :: "db \<Rightarrow> zone \<Rightarrow> cart_item \<Rightarrow> bool" where
  "line_in_stock d z item \<longleftrightarrow>
     (\<exists>p \<in> set (products d). Some (p_id p) = item_id item \<and> p_is_active p \<and>
        (\<exists>r \<in> set (inventory_rows d). inv_product_id r = p_id p \<and> inv_zone_id r = z_id z \<and>
           quantity_of item \<le> inv_quantity r))"

definition line_covered :: "db \<Rightarrow> zone \<Rightarrow> cart_item \<Rightarrow> bool" where
  "line_covered d z item \<longleftrightarrow>
     (\<exists>r \<in> set (inventory_rows d). Some (inv_product_id r) = item_id item \<and>
        inv_zone_id r = z_id z \<and> quantity_of item \<le> inv_quantity r)"

definition line_message :: "db \<Rightarrow> zone \<Rightarrow> cart_item \<Rightarrow> string" where
  "line_message d z item =
     (case find (\<lambda>p. Some (p_id p) = item_id item \<and> p_is_active p) (products d) of
        None \<Rightarrow> ''Producto con ID '' @ str_opt_int (item_id item) @ '' no encontrado''
      | Some p \<Rightarrow>
          (case find (\<lambda>r. inv_product_id r = p_id p \<and> inv_zone_id r = z_id z) (inventory_rows d) of
             None \<Rightarrow> ''No hay stock de '' @ p_name p @ '' en la zona de ventas''
           | Some r \<Rightarrow>
               ''Stock insuficiente para '' @ p_name p @ ''. Disponible: ''
                 @ str_int (inv_quantity r) @ '', Solicitado: '' @ str_int (quantity_of item)))"

text \<open>
  What a checkout writes fits the store: the client reference, when there is one, names a
  client; the quantity and the price of every line fit the columns of the sale item; the
  quantity of every inventory row fits its column, in the store and after each line of
  the cart in turn; and the total fits its column.
\<close>

definition line_price :: "db \<Rightarrow> cart_item \<Rightarrow> rat" where
  "line_price d item =
     (case find (\<lambda>p. Some (p_id p) = item_id item) (products d) of
        None \<Rightarrow> 0
      | Some p \<Rightarrow> (case p_precio_venta p of None \<Rightarrow> 0 | Some v \<Rightarrow> v))"

definition cart_total :: "db \<Rightarrow> cart_item list \<Rightarrow> rat" where
  "cart_total d items = (\<Sum>item\<leftarrow>items. line_price d item * of_int (quantity_of item))"

definition client_known :: "db \<Rightarrow> sale_request \<Rightarrow> bool" where
  "client_known d data \<longleftrightarrow>
     (case client_id data of None \<Rightarrow> True | Some c \<Rightarrow> c = 0 \<or> c \<in> set (clients d))"

definition checkout_storable :: "db \<Rightarrow> zone \<Rightarrow> sale_request \<Rightarrow> bool" where
  "checkout_storable d z data \<longleftrightarrow>
     client_known d data
     \<and> (\<forall>item \<in> set (cart data).
           in_range (sale_item_quantity_range (schema d)) (quantity_of item)
           \<and> under_limit (price_at_sale_limit (schema d)) (line_price d item))
     \<and> (\<forall>done \<in> set (prefixes (cart data)). \<forall>r \<in> set (inventory_rows d).
           in_range (inventory_quantity_range (schema d)) (inv_quantity (sold z done r)))
     \<and> under_limit (total_amount_limit (schema d)) (cart_total d (cart data))"

definition order_items_of :: "db \<Rightarrow> int \<Rightarrow> int \<Rightarrow> supplier_order_item list" where
  "order_items_of d order_pk product_pk =
     filter (\<lambda>i. soi_order_id i = order_pk \<and> soi_product_id i = product_pk)
       (supplier_order_items d)"

text \<open>
  Every item of the order has a unit price; and the store can hold an order item of the
  given quantity and unit price, which is not missing.
\<close>

definition order_priced :: "db \<Rightarrow> int \<Rightarrow> bool" where
  "order_priced d order_pk \<longleftrightarrow>
     (\<forall>i \<in> set (supplier_order_items d). soi_order_id i = order_pk \<longrightarrow> soi_unit_price i \<noteq> None)"

definition item_storable :: "db \<Rightarrow> int \<Rightarrow> rat option \<Rightarrow> bool" where
  "item_storable d quantity unit_price \<longleftrightarrow>
     in_range (order_item_quantity_range (schema d)) quantity
     \<and> (case unit_price of
          None \<Rightarrow> False
        | Some price \<Rightarrow> under_limit (unit_price_limit (schema d)) price)"

definition rows_of :: "db \<Rightarrow> int \<Rightarrow> inventory list" where
  "rows_of d product_pk = filter (\<lambda>r. inv_product_id r = product_pk) (inventory_rows d)"

subsection \<open>A sample store\<close>

text \<open>
  Two zones of one warehouse, of which the second is the sales zone, a product on sale
  with ten units there, and a product withdrawn from sale that still has stock. The
  quantity columns are signed 32-bit integers, the decimal columns keep ten digits of
  which two are decimals, the unit price of an order item is not null, and there are two
  clients.
\<close>

definition ex_schema :: schema where
  "ex_schema =
     \<lparr>inventory_quantity_range = (- 2147483648, 2147483647),
      sale_item_quantity_range = (- 2147483648, 2147483647),
      order_item_quantity_range = (- 2147483648, 2147483647),
      price_at_sale_limit = 100000000, total_amount_limit = 100000000,
      unit_price_limit = 100000000, unit_price_nullable = False,
      offset_limit = 9223372036854775807\<rparr>"

definition ex_back_zone :: zone where
  "ex_back_zone = \<lparr>z_id = 1, z_name = ''Bodega A'', z_label = ''Bodega A (en Central)'',
     z_warehouse_id = 1, z_is_active = True\<rparr>"

definition ex_sales_zone :: zone where
  "ex_sales_zone = \<lparr>z_id = 2, z_name = ''Sala de VENTAS'', z_label = ''Sala de VENTAS (en Central)'',
     z_warehouse_id = 1, z_is_active = True\<rparr>"

definition ex_closed_zone :: zone where
  "ex_closed_zone = \<lparr>z_id = 9, z_name = ''Ventas antiguas'', z_label = ''Ventas antiguas (en Norte)'',
     z_warehouse_id = 2, z_is_active = False\<rparr>"

definition ex_db :: db where
  "ex_db =
     \<lparr>schema = ex_schema, clients = [1, 2],
      zones = [ex_back_zone, ex_sales_zone],
      products =
        [\<lparr>p_id = 5, p_name = ''Te'', p_sku = ''TE-01'', p_precio_venta = Some 1000, p_is_active = True\<rparr>,
         \<lparr>p_id = 6, p_name = ''Mate'', p_sku = ''MA-01'', p_precio_venta = Some 2500, p_is_active = False\<rparr>],
      inventory_rows =
        [\<lparr>inv_id = 1, inv_product_id = 5, inv_zone_id = 2, inv_quantity = 10\<rparr>,
         \<lparr>inv_id = 2, inv_product_id = 6, inv_zone_id = 2, inv_quantity = 4\<rparr>,
         \<lparr>inv_id = 3, inv_product_id = 5, inv_zone_id = 1, inv_quantity = 0\<rparr>],
      sales = [], sale_items = [],
      product_suppliers = [], supplier_orders = [], supplier_order_items = []\<rparr>"

definition ex_user :: user where
  "ex_user = \<lparr>u_id = 3, u_is_superuser = False, u_profile_role = Some ''vendedor''\<rparr>"

definition ex_line :: "int \<Rightarrow> int \<Rightarrow> cart_item" where
  "ex_line pid q = \<lparr>item_id = Some pid, item_quantity = Some q\<rparr>"

definition ex_request :: "cart_item list \<Rightarrow> sale_request" where
  "ex_request lines = \<lparr>client_id = None, cart = lines\<rparr>"

definition ex_tea :: product where
  "ex_tea = \<lparr>p_id = 5, p_name = ''Te'', p_sku = ''TE-01'', p_precio_venta = Some 1000,
     p_is_active = True\<rparr>"

definition ex_tea_row :: inventory where
  "ex_tea_row = \<lparr>inv_id = 1, inv_product_id = 5, inv_zone_id = 2, inv_quantity = 10\<rparr>"

text \<open>
  The sample store with a negative row and an inactive zone for the product on sale,
  and with supplier orders: order 10 is pending and empty, order 11 is received, order 12
  is pending for a supplier unrelated to the product, order 13 is pending and holds five
  units of it.
\<close>

definition ex_stock_db :: db where
  "ex_stock_db = ex_db\<lparr>inventory_rows := inventory_rows ex_db @
     [\<lparr>inv_id = 4, inv_product_id = 5, inv_zone_id = 9, inv_quantity = - 3\<rparr>],
     zones := zones ex_db @ [ex_closed_zone]\<rparr>"

definition ex_search :: "string \<Rightarrow> search_params" where
  "ex_search q = \<lparr>param_q = Some q, param_query = None\<rparr>"

definition ex_tea_entry :: product_entry where
  "ex_tea_entry = \<lparr>pe_id = 5, pe_name = ''Te'', pe_sku = ''TE-01'', pe_price = 1000, pe_stock = 7\<rparr>"

definition ex_listing :: listing where
  "ex_listing = \<lparr>l_products = [ex_tea_entry], l_count = 1, l_page = 1, l_page_size = 50,
     l_total_pages = 1\<rparr>"

definition ex_admin :: user where
  "ex_admin = \<lparr>u_id = 1, u_is_superuser = False, u_profile_role = Some ''admin''\<rparr>"

definition ex_order_db :: db where
  "ex_order_db = ex_db
     \<lparr>product_suppliers := [\<lparr>ps_product_id = 5, ps_supplier_id = 1, ps_costo = Some 700\<rparr>],
      supplier_orders :=
        [\<lparr>so_id = 10, so_supplier_id = 1, so_status = ''PENDING''\<rparr>,
         \<lparr>so_id = 11, so_supplier_id = 1, so_status = ''RECEIVED''\<rparr>,
         \<lparr>so_id = 12, so_supplier_id = 2, so_status = ''PENDING''\<rparr>,
         \<lparr>so_id = 13, so_supplier_id = 1, so_status = ''PENDING''\<rparr>],
      supplier_order_items :=
        [\<lparr>soi_id = 1, soi_order_id = 13, soi_product_id = 5, soi_quantity = 5,
          soi_unit_price = Some 650\<rparr>]\<rparr>"

definition ex_unpriced_db :: db where
  "ex_unpriced_db = ex_order_db
     \<lparr>products := map (\<lambda>p. p\<lparr>p_precio_venta := None\<rparr>) (products ex_order_db),
      product_suppliers := [\<lparr>ps_product_id = 5, ps_supplier_id = 1, ps_costo = None\<rparr>]\<rparr>"

definition ex_order_request :: "int \<Rightarrow> int \<Rightarrow> order_request" where
  "ex_order_request pid q = \<lparr>req_product_id = Some pid, req_quantity = Some q\<rparr>"

definition ex_pending_order :: supplier_order where
  "ex_pending_order = \<lparr>so_id = 10, so_supplier_id = 1, so_status = ''PENDING''\<rparr>"

definition ex_received_order :: supplier_order where
  "ex_received_order = \<lparr>so_id = 11, so_supplier_id = 1, so_status = ''RECEIVED''\<rparr>"

section \<open>Checkout: properties\<close>

subsection \<open>Auxiliary facts\<close>

lemma filter_key_unique:
  "distinct (map f xs) \<Longrightarrow> x \<in> set xs \<Longrightarrow>
   filter (\<lambda>y. f y = f x \<and> Q y) xs = (if Q x then [x] else [])"
proof (induction xs)
  case Nil
  then show ?case by simp
next
  case (Cons a xs)
  show ?case
  proof (cases "a = x")
    case True
    with Cons.prems have "f x \<notin> f ` set xs" by simp
    then have "\<forall>y \<in> set xs. f y \<noteq> f x" by (metis image_eqI)
    then have "filter (\<lambda>y. f y = f x \<and> Q y) xs = []"
      by (simp add: filter_empty_conv)
    with True show ?thesis by simp
  next
    case False
    with Cons.prems have "x \<in> set xs" and "f a \<noteq> f x" by auto
    with Cons show ?thesis by simp
  qed
qed

lemma qs_get_unique:
  "distinct (map f xs) \<Longrightarrow> x \<in> set xs \<Longrightarrow> Q x \<Longrightarrow>
   qs_get m (\<lambda>y. f y = f x \<and> Q y) xs = Inr x"
  by (simp add: qs_get_def filter_key_unique)

lemma qs_get_none:
  "\<forall>y \<in> set xs. \<not> P y \<Longrightarrow> qs_get m P xs = Inl (DoesNotExist m)"
proof -
  assume "\<forall>y \<in> set xs. \<not> P y"
  then have "filter P xs = []" by (simp add: filter_empty_conv)
  then show ?thesis by (simp add: qs_get_def)
qed

lemma find_filter_hd:
  "find P xs = (case filter P xs of [] \<Rightarrow> None | x # _ \<Rightarrow> Some x)"
  by (induction xs) auto

lemma find_unique:
  "distinct (map f xs) \<Longrightarrow> x \<in> set xs \<Longrightarrow> Q x \<Longrightarrow> find (\<lambda>y. f y = f x \<and> Q y) xs = Some x"
  by (simp add: find_filter_hd filter_key_unique)

lemma get_product_found:
  assumes "distinct (map p_id (products d))" "p \<in> set (products d)"
  shows "get_product d (Some (p_id p)) = Inr p"
proof -
  have "qs_get Product (\<lambda>y. p_id y = p_id p \<and> True) (products d) = Inr p"
    using assms by (intro qs_get_unique) auto
  then show ?thesis by (simp add: get_product_def)
qed

lemma get_inventory_found:
  assumes "distinct (map inv_key (inventory_rows d))" "r \<in> set (inventory_rows d)"
    "inv_product_id r = p_id p" "inv_zone_id r = z_id z"
  shows "get_inventory d p z = Inr r"
proof -
  have "qs_get Inventory (\<lambda>y. inv_key y = inv_key r \<and> True) (inventory_rows d) = Inr r"
    using assms by (intro qs_get_unique) auto
  then show ?thesis using assms by (simp add: get_inventory_def inv_key_def)
qed

lemma save_inventory_sold:
  assumes ids: "distinct (map inv_id rows)" and keys: "distinct (map inv_key rows)"
    and r: "r \<in> set rows" "inv_zone_id r = z_id z" "item_id item = Some (inv_product_id r)"
  shows "save_inventory (r\<lparr>inv_quantity := inv_quantity r - quantity_of item\<rparr>) rows
         = map (sold z [item]) rows"
proof -
  have "(if inv_id x = inv_id r then r\<lparr>inv_quantity := inv_quantity r - quantity_of item\<rparr> else x)
        = sold z [item] x" if x: "x \<in> set rows" for x
  proof (cases "x = r")
    case True
    then show ?thesis using r by (simp add: sold_def requested_def)
  next
    case False
    from ids have "inj_on inv_id (set rows)" by (simp add: distinct_map)
    with x r False have id: "inv_id x \<noteq> inv_id r" by (auto dest: inj_onD)
    from keys have "inj_on inv_key (set rows)" by (simp add: distinct_map)
    with x r False have "inv_key x \<noteq> inv_key r" by (auto dest: inj_onD)
    then have "inv_zone_id x = z_id z \<Longrightarrow> inv_product_id x \<noteq> inv_product_id r"
      using r by (auto simp: inv_key_def)
    with id r show ?thesis by (auto simp: sold_def requested_def)
  qed
  then show ?thesis by (simp add: save_inventory_def)
qed

lemma sold_keeps [simp]:
  "inv_id (sold z items r) = inv_id r" "inv_key (sold z items r) = inv_key r"
  "inv_zone_id (sold z items r) = inv_zone_id r" "inv_product_id (sold z items r) = inv_product_id r"
  by (simp_all add: sold_def inv_key_def)

lemma sold_Cons: "sold z rest (sold z [item] r) = sold z (item # rest) r"
  by (simp add: sold_def requested_def)

lemma sold_Nil: "sold z [] r = r"
  by (simp add: sold_def requested_def)

lemma resolvable_cong:
  "products d' = products d \<Longrightarrow> map inv_key (inventory_rows d') = map inv_key (inventory_rows d)
   \<Longrightarrow> resolvable d' z item = resolvable d z item"
  by (simp add: resolvable_def)

lemma sold_line_cong:
  "products d' = products d \<Longrightarrow> sold_line d' sid item si = sold_line d sid item si"
  by (simp add: sold_line_def)

lemma line_price_cong:
  "products d' = products d \<Longrightarrow> line_price d' item = line_price d item"
  by (simp add: line_price_def)

lemma line_price_found:
  assumes "distinct (map p_id (products d))" "p \<in> set (products d)" "item_id item = Some (p_id p)"
  shows "line_price d item = sale_price_of p"
proof -
  have "find (\<lambda>y. p_id y = p_id p \<and> True) (products d) = Some p"
    using assms(1,2) by (intro find_unique) simp_all
  then have "find (\<lambda>y. Some (p_id y) = item_id item) (products d) = Some p"
    using assms(3) by (simp add: eq_commute [of "p_id p"])
  then show ?thesis by (simp add: line_price_def sale_price_of_def split: option.splits)
qed

lemma sell_items_step:
  assumes prods: "distinct (map p_id (products d))"
    and ids: "distinct (map inv_id (inventory_rows d))"
    and keys: "distinct (map inv_key (inventory_rows d))"
    and res: "resolvable d z item"
    and fit: "in_range (sale_item_quantity_range (schema d)) (quantity_of item)"
      "under_limit (price_at_sale_limit (schema d)) (line_price d item)"
      "\<forall>r \<in> set (inventory_rows d).
         in_range (inventory_quantity_range (schema d)) (inv_quantity (sold z [item] r))"
  shows "\<exists>si. sell_items d z sid (item # rest) tot =
           sell_items (d\<lparr>sale_items := sale_items d @ [si],
                         inventory_rows := map (sold z [item]) (inventory_rows d)\<rparr>)
             z sid rest (tot + line_price d item * of_int (quantity_of item))
         \<and> sold_line d sid item si
         \<and> si_price_at_sale si = line_price d item \<and> si_quantity si = quantity_of item"
proof -
  from res obtain p r where p: "p \<in> set (products d)" "item_id item = Some (p_id p)"
    and r: "r \<in> set (inventory_rows d)" "inv_key r = (p_id p, z_id z)"
    by (auto simp: resolvable_def)
  from r have rk: "inv_product_id r = p_id p" "inv_zone_id r = z_id z"
    by (simp_all add: inv_key_def)
  have gp: "get_product d (item_id item) = Inr p"
    using get_product_found [OF prods p(1)] p(2) by simp
  have gi: "get_inventory d p z = Inr r"
    using get_inventory_found [OF keys r(1) rk] .
  have lp: "line_price d item = sale_price_of p"
    by (rule line_price_found [OF prods p])
  have sv: "save_inventory (r\<lparr>inv_quantity := inv_quantity r - quantity_of item\<rparr>) (inventory_rows d)
            = map (sold z [item]) (inventory_rows d)"
    using save_inventory_sold [OF ids keys r(1) rk(2)] p(2) rk(1) by simp
  have "sold z [item] r = r\<lparr>inv_quantity := inv_quantity r - quantity_of item\<rparr>"
    using rk p(2) by (simp add: sold_def requested_def)
  with fit(3) r(1) have f3: "in_range (inventory_quantity_range (schema d))
                               (inv_quantity r - quantity_of item)"
    by fastforce
  let ?si = "\<lparr>si_id = new_id (map si_id (sale_items d)), si_sale_id = sid,
              si_product_id = p_id p, si_quantity = quantity_of item,
              si_price_at_sale = sale_price_of p\<rparr>"
  have "sell_items d z sid (item # rest) tot =
           sell_items (d\<lparr>sale_items := sale_items d @ [?si],
                         inventory_rows := map (sold z [item]) (inventory_rows d)\<rparr>)
             z sid rest (tot + line_price d item * of_int (quantity_of item))"
    using fit(1,2) f3 by (simp add: gp gi sv lp Let_def)
  moreover have "sold_line d sid item ?si"
    using p by (auto simp: sold_line_def sale_price_of_def split: option.splits)
  moreover have "si_price_at_sale ?si = line_price d item \<and> si_quantity ?si = quantity_of item"
    by (simp add: lp)
  ultimately show ?thesis by blast
qed

lemma sell_items_ok:
  assumes "distinct (map p_id (products d))"
    and "distinct (map inv_id (inventory_rows d))"
    and "distinct (map inv_key (inventory_rows d))"
    and "\<forall>item \<in> set items. resolvable d z item"
    and "\<forall>item \<in> set items.
           in_range (sale_item_quantity_range (schema d)) (quantity_of item)
           \<and> under_limit (price_at_sale_limit (schema d)) (line_price d item)"
    and "\<forall>done \<in> set (prefixes items). \<forall>r \<in> set (inventory_rows d).
           in_range (inventory_quantity_range (schema d)) (inv_quantity (sold z done r))"
  shows "\<exists>sis. sell_items d z sid items tot =
           Inr (d\<lparr>sale_items := sale_items d @ sis,
                   inventory_rows := map (sold z items) (inventory_rows d)\<rparr>,
                tot + cart_total d items)
         \<and> list_all2 (sold_line d sid) items sis
         \<and> cart_total d items = (\<Sum>si\<leftarrow>sis. si_price_at_sale si * of_int (si_quantity si))"
  using assms
proof (induction items arbitrary: d tot)
  case Nil
  have "map (sold z []) (inventory_rows d) = inventory_rows d"
    by (simp add: sold_Nil cong: map_cong)
  then show ?case by (simp add: cart_total_def)
next
  case (Cons item rest)
  from Cons.prems have res: "resolvable d z item" by simp
  from Cons.prems(5) have fit12: "in_range (sale_item_quantity_range (schema d)) (quantity_of item)"
    "under_limit (price_at_sale_limit (schema d)) (line_price d item)" by simp_all
  have "[item] \<in> set (prefixes (item # rest))" by (simp add: in_set_prefixes)
  with Cons.prems(6) have fit3: "\<forall>r \<in> set (inventory_rows d).
         in_range (inventory_quantity_range (schema d)) (inv_quantity (sold z [item] r))"
    by blast
  from sell_items_step [OF Cons.prems(1-3) res fit12 fit3, of sid rest tot]
  obtain si where step: "sell_items d z sid (item # rest) tot =
           sell_items (d\<lparr>sale_items := sale_items d @ [si],
                         inventory_rows := map (sold z [item]) (inventory_rows d)\<rparr>)
             z sid rest (tot + line_price d item * of_int (quantity_of item))"
    and line: "sold_line d sid item si"
    and si: "si_price_at_sale si = line_price d item" "si_quantity si = quantity_of item"
    by blast
  let ?d2 = "d\<lparr>sale_items := sale_items d @ [si],
               inventory_rows := map (sold z [item]) (inventory_rows d)\<rparr>"
  have k: "map inv_key (inventory_rows ?d2) = map inv_key (inventory_rows d)"
    and i: "map inv_id (inventory_rows ?d2) = map inv_id (inventory_rows d)"
    by (simp_all add: comp_def)
  have lp: "line_price ?d2 it = line_price d it" for it
    by (rule line_price_cong) simp
  have ct: "cart_total ?d2 rest = cart_total d rest"
    by (simp add: cart_total_def lp)
  have pre: "distinct (map p_id (products ?d2))" "distinct (map inv_id (inventory_rows ?d2))"
    "distinct (map inv_key (inventory_rows ?d2))" "\<forall>item \<in> set rest. resolvable ?d2 z item"
    "\<forall>item \<in> set rest.
           in_range (sale_item_quantity_range (schema ?d2)) (quantity_of item)
           \<and> under_limit (price_at_sale_limit (schema ?d2)) (line_price ?d2 item)"
    "\<forall>done \<in> set (prefixes rest). \<forall>r \<in> set (inventory_rows ?d2).
           in_range (inventory_quantity_range (schema ?d2)) (inv_quantity (sold z done r))"
  proof -
    show "distinct (map p_id (products ?d2))" using Cons.prems(1) by simp
    show "distinct (map inv_id (inventory_rows ?d2))" using Cons.prems(2) unfolding i .
    show "distinct (map inv_key (inventory_rows ?d2))" using Cons.prems(3) unfolding k .
    have "resolvable ?d2 z it = resolvable d z it" for it
      by (rule resolvable_cong) (simp_all add: comp_def)
    then show "\<forall>item \<in> set rest. resolvable ?d2 z item" using Cons.prems(4) by simp
    show "\<forall>item \<in> set rest.
           in_range (sale_item_quantity_range (schema ?d2)) (quantity_of item)
           \<and> under_limit (price_at_sale_limit (schema ?d2)) (line_price ?d2 item)"
      using Cons.prems(5) by (simp add: lp)
    show "\<forall>done \<in> set (prefixes rest). \<forall>r \<in> set (inventory_rows ?d2).
           in_range (inventory_quantity_range (schema ?d2)) (inv_quantity (sold z done r))"
    proof (intro ballI)
      fix done' r' assume dn: "done' \<in> set (prefixes rest)" and "r' \<in> set (inventory_rows ?d2)"
      then obtain r where r: "r \<in> set (inventory_rows d)" "r' = sold z [item] r" by auto
      from dn have "item # done' \<in> set (prefixes (item # rest))" by (simp add: in_set_prefixes)
      with Cons.prems(6) r(1) have "in_range (inventory_quantity_range (schema d))
                                      (inv_quantity (sold z (item # done') r))" by blast
      then show "in_range (inventory_quantity_range (schema ?d2)) (inv_quantity (sold z done' r'))"
        by (simp add: r(2) sold_Cons)
    qed
  qed
  from Cons.IH [OF pre, of "tot + line_price d item * of_int (quantity_of item)"]
  obtain sis where rest: "sell_items ?d2 z sid rest (tot + line_price d item * of_int (quantity_of item)) =
           Inr (?d2\<lparr>sale_items := sale_items ?d2 @ sis,
                   inventory_rows := map (sold z rest) (inventory_rows ?d2)\<rparr>,
                tot + line_price d item * of_int (quantity_of item) + cart_total ?d2 rest)"
    and lines: "list_all2 (sold_line ?d2 sid) rest sis"
    and tots: "cart_total ?d2 rest = (\<Sum>si\<leftarrow>sis. si_price_at_sale si * of_int (si_quantity si))"
    by blast
  have lines': "list_all2 (sold_line d sid) rest sis"
  proof -
    have "sold_line ?d2 sid = sold_line d sid"
      by (intro ext sold_line_cong) simp
    with lines show ?thesis by simp
  qed
  have c: "cart_total d (item # rest) = line_price d item * of_int (quantity_of item) + cart_total d rest"
    by (simp add: cart_total_def)
  have "sell_items d z sid (item # rest) tot =
           Inr (d\<lparr>sale_items := sale_items d @ (si # sis),
                   inventory_rows := map (sold z (item # rest)) (inventory_rows d)\<rparr>,
                tot + cart_total d (item # rest))"
    unfolding step rest c ct by (simp add: sold_Cons comp_def add.assoc)
  moreover have "list_all2 (sold_line d sid) (item # rest) (si # sis)"
    using line lines' by simp
  moreover have "cart_total d (item # rest) =
                   (\<Sum>si\<leftarrow>si # sis. si_price_at_sale si * of_int (si_quantity si))"
    using tots by (simp add: c ct si)
  ultimately show ?case by blast
qed

lemma fold_max_ge: "(a::int) \<le> fold max xs a"
  by (induction xs arbitrary: a) (auto intro: order_trans [OF max.cobounded2])

lemma fold_max_mem: "x \<in> set xs \<Longrightarrow> (x::int) \<le> fold max xs a"
proof (induction xs arbitrary: a)
  case Nil
  then show ?case by simp
next
  case (Cons y ys)
  show ?case
  proof (cases "x = y")
    case True
    have "x \<le> max y a" using True by simp
    also have "\<dots> \<le> fold max ys (max y a)" by (rule fold_max_ge)
    finally show ?thesis by simp
  next
    case False
    with Cons show ?thesis by simp
  qed
qed

lemma new_id_fresh: "x \<in> set ids \<Longrightarrow> x < new_id ids"
  using fold_max_mem [of x ids 0] by (simp add: new_id_def)

lemma get_active_product_found:
  assumes "distinct (map p_id (products d))" "p \<in> set (products d)" "p_is_active p"
  shows "get_active_product d (Some (p_id p)) = Inr p"
proof -
  have "qs_get Product (\<lambda>y. p_id y = p_id p \<and> p_is_active y) (products d) = Inr p"
    using assms by (intro qs_get_unique) auto
  then show ?thesis by (simp add: get_active_product_def)
qed

lemma get_active_product_missing:
  assumes "\<forall>p \<in> set (products d). \<not> (Some (p_id p) = product_id \<and> p_is_active p)"
  shows "get_active_product d product_id = Inl (DoesNotExist Product)"
  unfolding get_active_product_def using assms by (intro qs_get_none) auto

lemma get_inventory_missing:
  assumes "\<forall>r \<in> set (inventory_rows d). \<not> (inv_product_id r = p_id p \<and> inv_zone_id r = z_id z)"
  shows "get_inventory d p z = Inl (DoesNotExist Inventory)"
  unfolding get_inventory_def using assms by (intro qs_get_none) auto

lemma check_item_in_stock:
  assumes k: "keys_ok d" and ok: "line_in_stock d z item"
  shows "check_item d z item = Inr None"
proof -
  from ok obtain p r where p: "p \<in> set (products d)" "item_id item = Some (p_id p)" "p_is_active p"
    and r: "r \<in> set (inventory_rows d)" "inv_product_id r = p_id p" "inv_zone_id r = z_id z"
    and q: "quantity_of item \<le> inv_quantity r"
    by (auto simp: line_in_stock_def)
  from k have gp: "get_active_product d (item_id item) = Inr p"
    using get_active_product_found [of d p] p by (simp add: keys_ok_def)
  from k have gi: "get_inventory d p z = Inr r"
    using get_inventory_found [of d r p z] r by (simp add: keys_ok_def)
  show ?thesis using q by (simp add: check_item_def gp gi)
qed



lemma save_sale_last:
  assumes "\<forall>s \<in> set rows. sale_id s \<noteq> sale_id row" "sale_id row' = sale_id row"
  shows "save_sale row' (rows @ [row]) = rows @ [row']"
proof -
  have "map (\<lambda>r. if sale_id r = sale_id row' then row' else r) rows = rows"
    using assms by (intro map_idI) auto
  then show ?thesis using assms by (simp add: save_sale_def)
qed

lemma line_in_stock_resolvable: "line_in_stock d z item \<Longrightarrow> resolvable d z item"
  unfolding line_in_stock_def resolvable_def inv_key_def by force

lemma check_item_message:
  assumes k: "keys_ok d" and bad: "\<not> line_in_stock d z item"
  shows "check_item d z item = Inr (Some (line_message d z item))"
proof (cases "\<exists>p \<in> set (products d). Some (p_id p) = item_id item \<and> p_is_active p")
  case False
  then have g: "get_active_product d (item_id item) = Inl (DoesNotExist Product)"
    by (intro get_active_product_missing) auto
  from False have "find (\<lambda>p. Some (p_id p) = item_id item \<and> p_is_active p) (products d) = None"
    by (simp add: find_None_iff)
  with g show ?thesis by (simp add: check_item_def line_message_def)
next
  case True
  then obtain p where p: "p \<in> set (products d)" "item_id item = Some (p_id p)" "p_is_active p"
    by auto
  from k have gp: "get_active_product d (item_id item) = Inr p"
    using get_active_product_found [of d p] p by (simp add: keys_ok_def)
  from k p have "find (\<lambda>y. p_id y = p_id p \<and> p_is_active y) (products d) = Some p"
    by (intro find_unique) (simp_all add: keys_ok_def)
  then have fp: "find (\<lambda>y. Some (p_id y) = item_id item \<and> p_is_active y) (products d) = Some p"
    using p(2) by (simp add: eq_commute [of "p_id p"])
  show ?thesis
  proof (cases "\<exists>r \<in> set (inventory_rows d). inv_product_id r = p_id p \<and> inv_zone_id r = z_id z")
    case False
    then have g: "get_inventory d p z = Inl (DoesNotExist Inventory)"
      by (intro get_inventory_missing) auto
    from False have "find (\<lambda>r. inv_product_id r = p_id p \<and> inv_zone_id r = z_id z) (inventory_rows d) = None"
      by (simp add: find_None_iff)
    with g show ?thesis by (simp add: check_item_def line_message_def gp fp)
  next
    case True
    then obtain r where r: "r \<in> set (inventory_rows d)" "inv_product_id r = p_id p"
      "inv_zone_id r = z_id z" by auto
    from k have gi: "get_inventory d p z = Inr r"
      using get_inventory_found [of d r p z] r by (simp add: keys_ok_def)
    from k r have "find (\<lambda>y. inv_key y = inv_key r \<and> True) (inventory_rows d) = Some r"
      by (intro find_unique) (simp_all add: keys_ok_def)
    then have fr: "find (\<lambda>y. inv_product_id y = p_id p \<and> inv_zone_id y = z_id z) (inventory_rows d) = Some r"
      using r by (simp add: inv_key_def)
    have "\<not> quantity_of item \<le> inv_quantity r"
    proof
      assume "quantity_of item \<le> inv_quantity r"
      with p r have "line_in_stock d z item"
        unfolding line_in_stock_def by (intro bexI [of _ p] conjI bexI [of _ r]) simp_all
      with bad show False by simp
    qed
    then have "inv_quantity r < quantity_of item" by simp
    then show ?thesis by (simp add: check_item_def line_message_def gp gi fp fr)
  qed
qed

lemma validate_stock_collects:
  assumes "keys_ok d"
  shows "validate_stock d z items errors =
           Inr (errors @ map (line_message d z) (filter (\<lambda>item. \<not> line_in_stock d z item) items))"
proof (induction items arbitrary: errors)
  case Nil
  show ?case by simp
next
  case (Cons item rest)
  show ?case
  proof (cases "line_in_stock d z item")
    case True
    then have "check_item d z item = Inr None" by (rule check_item_in_stock [OF assms])
    with Cons [of errors] True show ?thesis by simp
  next
    case False
    then have "check_item d z item = Inr (Some (line_message d z item))"
      by (rule check_item_message [OF assms])
    with Cons [of "errors @ [line_message d z item]"] False show ?thesis by simp
  qed
qed

lemma validate_stock_clean:
  assumes "keys_ok d" "\<forall>item \<in> set items. line_in_stock d z item"
  shows "validate_stock d z items [] = Inr []"
proof -
  from assms(2) have "filter (\<lambda>item. \<not> line_in_stock d z item) items = []"
    by (simp add: filter_empty_conv)
  with validate_stock_collects [OF assms(1), of z items "[]"] show ?thesis by simp
qed

lemma checkout_commits:
  assumes k: "keys_ok d" and z: "get_sales_zone d = Some z" and ne: "cart data \<noteq> []"
    and ok: "\<forall>item \<in> set (cart data). line_in_stock d z item"
    and st: "checkout_storable d z data"
  shows "\<exists>sis tot. process_sale d u (Some data) =
           (d\<lparr>sales := sales d @
                 [\<lparr>sale_id = new_id (map sale_id (sales d)),
                   sale_client_id = (if client_id data = Some 0 then None else client_id data),
                   sale_user_id = u_id u, sale_total_amount = tot\<rparr>],
               sale_items := sale_items d @ sis,
               inventory_rows := map (sold z (cart data)) (inventory_rows d)\<rparr>,
            Sale_success (new_id (map sale_id (sales d))) tot)
         \<and> list_all2 (sold_line d (new_id (map sale_id (sales d)))) (cart data) sis
         \<and> tot = (\<Sum>si\<leftarrow>sis. si_price_at_sale si * of_int (si_quantity si))
         \<and> tot = cart_total d (cart data)"
proof -
  let ?sid = "new_id (map sale_id (sales d))"
  let ?sale = "\<lparr>sale_id = ?sid,
                 sale_client_id = (if client_id data = Some 0 then None else client_id data),
                 sale_user_id = u_id u, sale_total_amount = 0\<rparr>"
  let ?d1 = "d\<lparr>sales := sales d @ [?sale]\<rparr>"
  have v: "validate_stock d z (cart data) [] = Inr []"
    by (rule validate_stock_clean [OF k ok])
  have res: "\<forall>item \<in> set (cart data). resolvable ?d1 z item"
  proof
    fix item assume "item \<in> set (cart data)"
    with ok have "resolvable d z item" by (simp add: line_in_stock_resolvable)
    then show "resolvable ?d1 z item" by (simp add: resolvable_def)
  qed
  from k have pre: "distinct (map p_id (products ?d1))" "distinct (map inv_id (inventory_rows ?d1))"
    "distinct (map inv_key (inventory_rows ?d1))" by (simp_all add: keys_ok_def)
  have lp: "line_price ?d1 it = line_price d it" for it
    by (rule line_price_cong) simp
  have ct: "cart_total ?d1 (cart data) = cart_total d (cart data)"
    by (simp add: cart_total_def lp)
  from st have fit1: "\<forall>item \<in> set (cart data).
           in_range (sale_item_quantity_range (schema ?d1)) (quantity_of item)
           \<and> under_limit (price_at_sale_limit (schema ?d1)) (line_price ?d1 item)"
    by (simp add: checkout_storable_def lp)
  from st have fit2: "\<forall>done \<in> set (prefixes (cart data)). \<forall>r \<in> set (inventory_rows ?d1).
           in_range (inventory_quantity_range (schema ?d1)) (inv_quantity (sold z done r))"
    by (simp add: checkout_storable_def)
  from st have lim: "under_limit (total_amount_limit (schema d)) (cart_total d (cart data))"
    by (simp add: checkout_storable_def)
  then have lim0: "under_limit (total_amount_limit (schema d)) 0"
    by (simp add: under_limit_def)
  from st have cl: "(case (if client_id data = Some 0 then None else client_id data) of
                       None \<Rightarrow> True | Some c \<Rightarrow> c \<in> set (clients d))"
    by (auto simp: checkout_storable_def client_known_def split: option.splits)
  from sell_items_ok [OF pre res fit1 fit2, of ?sid 0] obtain sis where
    run: "sell_items ?d1 z ?sid (cart data) 0 =
           Inr (?d1\<lparr>sale_items := sale_items ?d1 @ sis,
                   inventory_rows := map (sold z (cart data)) (inventory_rows ?d1)\<rparr>,
                0 + cart_total ?d1 (cart data))"
    and lines: "list_all2 (sold_line ?d1 ?sid) (cart data) sis"
    and tots: "cart_total ?d1 (cart data) = (\<Sum>si\<leftarrow>sis. si_price_at_sale si * of_int (si_quantity si))"
    by blast
  let ?tot = "cart_total d (cart data)"
  have "sold_line ?d1 ?sid = sold_line d ?sid"
    by (intro ext sold_line_cong) simp
  with lines have lines': "list_all2 (sold_line d ?sid) (cart data) sis" by simp
  have fresh: "\<forall>s \<in> set (sales d). sale_id s \<noteq> sale_id ?sale"
    using new_id_fresh [of _ "map sale_id (sales d)"] by fastforce
  let ?sale' = "\<lparr>sale_id = ?sid,
                 sale_client_id = (if client_id data = Some 0 then None else client_id data),
                 sale_user_id = u_id u, sale_total_amount = ?tot\<rparr>"
  have sv: "save_sale ?sale' (sales d @ [?sale]) = sales d @ [?sale']"
    by (rule save_sale_last [OF fresh]) simp
  have "process_sale d u (Some data) =
           (d\<lparr>sales := sales d @ [?sale'],
               sale_items := sale_items d @ sis,
               inventory_rows := map (sold z (cart data)) (inventory_rows d)\<rparr>,
            Sale_success ?sid ?tot)"
    using ne lim lim0 cl
    by (simp add: process_sale_def z v run ct sv Let_def split del: if_split)
  with lines' tots ct show ?thesis by auto
qed

lemma checkout_rejects:
  assumes k: "keys_ok d" and z: "get_sales_zone d = Some z"
    and bad: "\<exists>item \<in> set (cart data). \<not> line_in_stock d z item"
  shows "process_sale d u (Some data) =
           (d, Sale_error 400
                 (join ''<br>'' (map (line_message d z)
                    (filter (\<lambda>item. \<not> line_in_stock d z item) (cart data)))))"
proof -
  from bad have ne: "cart data \<noteq> []" by auto
  from bad have f: "filter (\<lambda>item. \<not> line_in_stock d z item) (cart data) \<noteq> []"
    by (simp add: filter_empty_conv)
  have v: "validate_stock d z (cart data) [] =
           Inr (map (line_message d z) (filter (\<lambda>item. \<not> line_in_stock d z item) (cart data)))"
    using validate_stock_collects [OF k, of z "cart data" "[]"] by simp
  show ?thesis using ne f by (simp add: process_sale_def z v)
qed

lemma find_first:
  "P z \<Longrightarrow> \<forall>y \<in> set pre. \<not> P y \<Longrightarrow> find P (pre @ z # post) = Some z"
  by (induction pre) auto

lemma sold_single_row:
  assumes k: "keys_ok d" and r: "r \<in> set (inventory_rows d)" "inv_zone_id r = z_id z"
    and other: "\<forall>item \<in> set items. item_id item = Some (inv_product_id r)"
  shows "map (sold z items) (inventory_rows d) =
         map (\<lambda>x. if x = r then r\<lparr>inv_quantity := inv_quantity r - sum_list (map quantity_of items)\<rparr>
                   else x) (inventory_rows d)"
proof (rule map_cong [OF refl])
  fix x assume x: "x \<in> set (inventory_rows d)"
  from other have all: "filter (\<lambda>i. item_id i = Some (inv_product_id r)) items = items"
    by (simp add: filter_id_conv)
  show "sold z items x =
        (if x = r then r\<lparr>inv_quantity := inv_quantity r - sum_list (map quantity_of items)\<rparr> else x)"
  proof (cases "x = r")
    case True
    with r all show ?thesis by (simp add: sold_def requested_def)
  next
    case False
    from k have "inj_on inv_key (set (inventory_rows d))" by (simp add: keys_ok_def distinct_map)
    with x r False have "inv_key x \<noteq> inv_key r" by (auto dest: inj_onD)
    then have diff: "inv_zone_id x = z_id z \<Longrightarrow> inv_product_id x \<noteq> inv_product_id r"
      using r by (auto simp: inv_key_def)
    have "inv_zone_id x = z_id z \<Longrightarrow> filter (\<lambda>i. item_id i = Some (inv_product_id x)) items = []"
      using other diff by (auto simp: filter_empty_conv)
    with False show ?thesis by (simp add: sold_def requested_def)
  qed
qed

lemma check_item_stocked:
  assumes k: "keys_ok d" and p: "p \<in> set (products d)" "p_is_active p"
    and r: "r \<in> set (inventory_rows d)" "inv_product_id r = p_id p" "inv_zone_id r = z_id z"
  shows "check_item d z \<lparr>item_id = Some (p_id p), item_quantity = Some q\<rparr> =
           (if q \<le> inv_quantity r then Inr None
            else Inr (Some (''Stock insuficiente para '' @ p_name p @ ''. Disponible: ''
                   @ str_int (inv_quantity r) @ '', Solicitado: '' @ str_int q)))"
proof -
  from k have gp: "get_active_product d (Some (p_id p)) = Inr p"
    using get_active_product_found [of d p] p by (simp add: keys_ok_def)
  from k have gi: "get_inventory d p z = Inr r"
    using get_inventory_found [of d r p z] r by (simp add: keys_ok_def)
  show ?thesis by (simp add: check_item_def gp gi quantity_of_def)
qed

lemma lookups_zones:
  "get_active_product (d\<lparr>zones := zs\<rparr>) = get_active_product d"
  "get_product (d\<lparr>zones := zs\<rparr>) = get_product d"
  "get_inventory (d\<lparr>zones := zs\<rparr>) = get_inventory d"
  by (intro ext, simp add: get_active_product_def get_product_def get_inventory_def)+

lemma check_item_zones:
  "check_item (d\<lparr>zones := zs\<rparr>) z item = check_item d z item"
  unfolding check_item_def lookups_zones ..

lemma validate_stock_zones:
  "validate_stock (d\<lparr>zones := zs\<rparr>) z items errors = validate_stock d z items errors"
  by (induction items arbitrary: errors)
    (simp_all add: check_item_zones split: sum.splits option.splits)

lemma sell_items_zones:
  "sell_items (d\<lparr>zones := zs\<rparr>) z sid items tot =
     (case sell_items d z sid items tot of
        Inl e \<Rightarrow> Inl e
      | Inr (d', tot') \<Rightarrow> Inr (d'\<lparr>zones := zs\<rparr>, tot'))"
proof (induction items arbitrary: d tot)
  case Nil
  show ?case by simp
next
  case (Cons item rest)
  show ?case
  proof (cases "get_product d (item_id item)")
    case (Inl e)
    then have "get_product (d\<lparr>zones := zs\<rparr>) (item_id item) = Inl e"
      by (simp add: get_product_def)
    with Inl show ?thesis by simp
  next
    case (Inr p)
    then have gp: "get_product (d\<lparr>zones := zs\<rparr>) (item_id item) = Inr p"
      by (simp add: get_product_def)
    show ?thesis
    proof (cases "get_inventory d p z")
      case (Inl e)
      then have "get_inventory (d\<lparr>zones := zs\<rparr>) p z = Inl e"
        by (simp add: get_inventory_def)
      with Inl Inr gp show ?thesis by simp
    next
      case r: (Inr r)
      then have gi: "get_inventory (d\<lparr>zones := zs\<rparr>) p z = Inr r"
        by (simp add: get_inventory_def)
      show ?thesis
      proof (cases "in_range (sale_item_quantity_range (schema d)) (quantity_of item)
                    \<and> under_limit (price_at_sale_limit (schema d)) (sale_price_of p)
                    \<and> in_range (inventory_quantity_range (schema d))
                          (inv_quantity r - quantity_of item)")
        case False
        then have "sell_items d z sid (item # rest) tot = Inl OutOfRange"
          by (auto simp: Inr r Let_def)
        moreover from False have "sell_items (d\<lparr>zones := zs\<rparr>) z sid (item # rest) tot = Inl OutOfRange"
          by (auto simp: gp gi Let_def)
        ultimately show ?thesis by simp
      next
        case True
        let ?d2 = "d\<lparr>sale_items := sale_items d @
                     [\<lparr>si_id = new_id (map si_id (sale_items d)), si_sale_id = sid,
                       si_product_id = p_id p, si_quantity = quantity_of item,
                       si_price_at_sale = sale_price_of p\<rparr>],
                   inventory_rows :=
                     save_inventory (r\<lparr>inv_quantity := inv_quantity r - quantity_of item\<rparr>)
                       (inventory_rows d)\<rparr>"
        have a: "sell_items d z sid (item # rest) tot =
               sell_items ?d2 z sid rest (tot + sale_price_of p * of_int (quantity_of item))"
          using True by (simp add: Inr r Let_def)
        let ?d2z = "d\<lparr>zones := zs\<rparr>\<lparr>sale_items := sale_items d @
                     [\<lparr>si_id = new_id (map si_id (sale_items d)), si_sale_id = sid,
                       si_product_id = p_id p, si_quantity = quantity_of item,
                       si_price_at_sale = sale_price_of p\<rparr>],
                   inventory_rows :=
                     save_inventory (r\<lparr>inv_quantity := inv_quantity r - quantity_of item\<rparr>)
                       (inventory_rows d)\<rparr>"
        have eq: "?d2z = ?d2\<lparr>zones := zs\<rparr>" by (rule db.equality) simp_all
        have "sell_items (d\<lparr>zones := zs\<rparr>) z sid (item # rest) tot =
               sell_items ?d2z z sid rest (tot + sale_price_of p * of_int (quantity_of item))"
          using True by (simp add: gp gi Let_def)
        then have b: "sell_items (d\<lparr>zones := zs\<rparr>) z sid (item # rest) tot =
               sell_items (?d2\<lparr>zones := zs\<rparr>) z sid rest
                 (tot + sale_price_of p * of_int (quantity_of item))"
          unfolding eq .
        show ?thesis unfolding a b by (rule Cons.IH)
      qed
    qed
  qed
qed

lemma process_sale_zones:
  assumes "get_sales_zone (d\<lparr>zones := zs\<rparr>) = get_sales_zone d"
  shows "process_sale (d\<lparr>zones := zs\<rparr>) u body =
           (case process_sale d u body of (d', response) \<Rightarrow> (d'\<lparr>zones := zs\<rparr>, response))"
proof (cases body)
  case None
  then show ?thesis by (simp add: process_sale_def)
next
  case (Some data)
  show ?thesis
  proof (cases "get_sales_zone d")
    case None
    with assms Some show ?thesis by (simp add: process_sale_def)
  next
    case z: (Some z)
    show ?thesis
    proof (cases "validate_stock d z (cart data) []")
      case (Inl e)
      with assms Some z show ?thesis
        by (simp add: process_sale_def validate_stock_zones)
    next
      case (Inr errors)
      show ?thesis
      proof (cases "cart data = [] \<or> errors \<noteq> []
                    \<or> \<not> under_limit (total_amount_limit (schema d)) 0")
        case True
        with assms Some z Inr show ?thesis
          by (auto simp: process_sale_def validate_stock_zones)
      next
        case False
        then have ne: "cart data \<noteq> []" and er: "errors = []"
          and l0: "under_limit (total_amount_limit (schema d)) 0" by simp_all
        let ?sid = "new_id (map sale_id (sales d))"
        let ?cl = "if client_id data = Some 0 then None else client_id data"
        let ?sale = "\<lambda>t. \<lparr>sale_id = ?sid, sale_client_id = ?cl,
                       sale_user_id = u_id u, sale_total_amount = t\<rparr>"
        let ?d1 = "d\<lparr>sales := sales d @ [?sale 0]\<rparr>"
        let ?d1z = "d\<lparr>zones := zs, sales := sales d @ [?sale 0]\<rparr>"
        let ?fin = "\<lambda>d0 r. case r of
               Inl e \<Rightarrow> (d0, Sale_server_error e)
             | Inr (d2, tot) \<Rightarrow>
                 if \<not> under_limit (total_amount_limit (schema d0)) tot
                 then (d0, Sale_server_error OutOfRange)
                 else if \<not> (case sale_client_id (?sale 0) of
                                None \<Rightarrow> True | Some c \<Rightarrow> c \<in> set (clients d0))
                 then (d0, Sale_server_error IntegrityError)
                 else (d2\<lparr>sales := save_sale ((?sale 0)\<lparr>sale_total_amount := tot\<rparr>) (sales d2)\<rparr>,
                       Sale_success ?sid tot)"
        have eq: "?d1z = ?d1\<lparr>zones := zs\<rparr>" by (rule db.equality) simp_all
        have sz: "sell_items ?d1z z ?sid (cart data) 0 =
               (case sell_items ?d1 z ?sid (cart data) 0 of
                  Inl e \<Rightarrow> Inl e
                | Inr (d', tot') \<Rightarrow> Inr (d'\<lparr>zones := zs\<rparr>, tot'))"
          unfolding eq by (rule sell_items_zones)
        have L: "process_sale d u (Some data) = ?fin d (sell_items ?d1 z ?sid (cart data) 0)"
          using ne l0 by (simp add: process_sale_def z Inr er Let_def split del: if_split)
        have vz: "validate_stock (d\<lparr>zones := zs\<rparr>) z (cart data) [] = Inr []"
          using Inr er by (simp add: validate_stock_zones)
        have zz: "get_sales_zone (d\<lparr>zones := zs\<rparr>) = Some z" using assms z by simp
        have R: "process_sale (d\<lparr>zones := zs\<rparr>) u (Some data) =
                   ?fin (d\<lparr>zones := zs\<rparr>) (sell_items ?d1z z ?sid (cart data) 0)"
          using ne l0 by (simp add: process_sale_def zz vz Let_def split del: if_split)
        show ?thesis
        proof (cases "sell_items ?d1 z ?sid (cart data) 0")
          case (Inl e)
          then show ?thesis unfolding Some L R sz by simp
        next
          case (Inr pr)
          obtain d2 tot where pr: "pr = (d2, tot)" by (cases pr)
          have "d2\<lparr>zones := zs, sales := save_sale (?sale tot) (sales d2)\<rparr>
                = d2\<lparr>sales := save_sale (?sale tot) (sales d2)\<rparr>\<lparr>zones := zs\<rparr>"
            by (rule db.equality) simp_all
          then show ?thesis unfolding Some L R sz Inr pr
            by (simp split: option.splits)
        qed
      qed
    qed
  qed
qed

subsection \<open>The claims about checkout\<close>

text \<open>
  C1, as stated, fails. In the sample store every line of the empty cart, and the one
  line of a cart that asks for one unit of the withdrawn product (four units in the sales
  zone), has its quantity covered by the sales-zone inventory row; both checkouts are
  refused and leave the store as it was.
\<close>

theorem process_sale_in_stock_counterexample:
  "get_sales_zone ex_db = Some ex_sales_zone
   \<and> list_all (line_covered ex_db ex_sales_zone) []
   \<and> process_sale ex_db ex_user (Some (ex_request [])) = (ex_db, Sale_error 400 msg_cart_empty)
   \<and> list_all (line_covered ex_db ex_sales_zone) [ex_line 6 1]
   \<and> process_sale ex_db ex_user (Some (ex_request [ex_line 6 1]))
       = (ex_db, Sale_error 400 ''Producto con ID 6 no encontrado'')"
  by code_simp

text \<open>
  C1, amended. In a store that keeps its key constraints and resolves a sales zone, for
  every non-empty cart in which every line names an active product whose inventory row in
  the sales zone holds at least the requested quantity, and whose checkout the store can
  hold (the client, if any, exists; every quantity, price and total written, and every
  quantity an inventory row goes through, fits its column), \<^verbatim>\<open>process_sale\<close> succeeds. It
  appends exactly one sale, and one sale item per cart line, in cart order, with the
  line's product and quantity and with the price the product has at that moment (zero
  when it has none); every inventory row of the sales zone loses the quantities of the
  lines that name its product, and no other row changes; the sale's total is the sum over
  the created items of price times quantity, which is the sum over the lines of the
  product's price times the line's quantity.
\<close>

theorem process_sale_in_stock:
  assumes "keys_ok d" and "get_sales_zone d = Some z" and "cart data \<noteq> []"
    and "\<forall>item \<in> set (cart data). line_in_stock d z item"
    and "checkout_storable d z data"
  shows "\<exists>sis tot. process_sale d u (Some data) =
           (d\<lparr>sales := sales d @
                 [\<lparr>sale_id = new_id (map sale_id (sales d)),
                   sale_client_id = (if client_id data = Some 0 then None else client_id data),
                   sale_user_id = u_id u, sale_total_amount = tot\<rparr>],
               sale_items := sale_items d @ sis,
               inventory_rows := map (sold z (cart data)) (inventory_rows d)\<rparr>,
            Sale_success (new_id (map sale_id (sales d))) tot)
         \<and> list_all2 (sold_line d (new_id (map sale_id (sales d)))) (cart data) sis
         \<and> tot = (\<Sum>si\<leftarrow>sis. si_price_at_sale si * of_int (si_quantity si))
         \<and> tot = cart_total d (cart data)"
  using assms by (rule checkout_commits)

theorem process_sale_in_stock_witness:
  "keys_ok ex_db \<and> get_sales_zone ex_db = Some ex_sales_zone
   \<and> list_all (line_in_stock ex_db ex_sales_zone) (cart (ex_request [ex_line 5 2]))
   \<and> checkout_storable ex_db ex_sales_zone (ex_request [ex_line 5 2])
   \<and> (\<exists>sis tot. process_sale ex_db ex_user (Some (ex_request [ex_line 5 2])) =
           (ex_db\<lparr>sales := sales ex_db @
                 [\<lparr>sale_id = new_id (map sale_id (sales ex_db)),
                   sale_client_id = (if client_id (ex_request [ex_line 5 2]) = Some 0 then None
                                     else client_id (ex_request [ex_line 5 2])),
                   sale_user_id = u_id ex_user, sale_total_amount = tot\<rparr>],
               sale_items := sale_items ex_db @ sis,
               inventory_rows := map (sold ex_sales_zone (cart (ex_request [ex_line 5 2])))
                                   (inventory_rows ex_db)\<rparr>,
            Sale_success (new_id (map sale_id (sales ex_db))) tot)
         \<and> list_all2 (sold_line ex_db (new_id (map sale_id (sales ex_db))))
             (cart (ex_request [ex_line 5 2])) sis
         \<and> tot = (\<Sum>si\<leftarrow>sis. si_price_at_sale si * of_int (si_quantity si))
         \<and> tot = cart_total ex_db (cart (ex_request [ex_line 5 2])))"
proof -
  have h1: "keys_ok ex_db" by code_simp
  have h2: "get_sales_zone ex_db = Some ex_sales_zone" by code_simp
  have h3: "cart (ex_request [ex_line 5 2]) \<noteq> []" by code_simp
  have h4: "\<forall>item \<in> set (cart (ex_request [ex_line 5 2])). line_in_stock ex_db ex_sales_zone item"
    by code_simp
  have h4': "list_all (line_in_stock ex_db ex_sales_zone) (cart (ex_request [ex_line 5 2]))"
    by code_simp
  have h5: "checkout_storable ex_db ex_sales_zone (ex_request [ex_line 5 2])" by code_simp
  from process_sale_in_stock [OF h1 h2 h3 h4 h5, of ex_user] h1 h2 h4' h5 show ?thesis by blast
qed

text \<open>
  The example of the specification: a cart of two units of product 5, priced 1000, with
  ten units in the sales zone, gives a sale of 2000 and leaves eight units.
\<close>

lemma process_sale_example:
  "process_sale ex_db ex_user (Some (ex_request [ex_line 5 2])) =
     (ex_db\<lparr>sales := [\<lparr>sale_id = 1, sale_client_id = None, sale_user_id = 3,
                         sale_total_amount = 2000\<rparr>],
            sale_items := [\<lparr>si_id = 1, si_sale_id = 1, si_product_id = 5, si_quantity = 2,
                             si_price_at_sale = 1000\<rparr>],
            inventory_rows :=
              [\<lparr>inv_id = 1, inv_product_id = 5, inv_zone_id = 2, inv_quantity = 8\<rparr>,
               \<lparr>inv_id = 2, inv_product_id = 6, inv_zone_id = 2, inv_quantity = 4\<rparr>,
               \<lparr>inv_id = 3, inv_product_id = 5, inv_zone_id = 1, inv_quantity = 0\<rparr>]\<rparr>,
      Sale_success 1 2000)"
  by code_simp

text \<open>
  A checkout for a client that does not exist, or with a quantity that the column of the
  sale items cannot hold, is undone and answered with a server error, although the stock
  covers every line.
\<close>

lemma process_sale_unknown_client_example:
  "list_all (line_in_stock ex_db ex_sales_zone) [ex_line 5 1]
   \<and> process_sale ex_db ex_user (Some \<lparr>client_id = Some 7, cart = [ex_line 5 1]\<rparr>)
       = (ex_db, Sale_server_error IntegrityError)"
  by code_simp

lemma process_sale_out_of_range_example:
  "list_all (line_in_stock ex_db ex_sales_zone) [ex_line 5 (- 100000000000000000000)]
   \<and> process_sale ex_db ex_user (Some (ex_request [ex_line 5 (- 100000000000000000000)]))
       = (ex_db, Sale_server_error OutOfRange)"
  by code_simp

text \<open>
  C2, as stated, fails when no zone is active: the cart names a product that does not
  exist, and the response is the sales-zone error rather than the message of the line.
\<close>

theorem process_sale_rejects_counterexample:
  "get_sales_zone (ex_db\<lparr>zones := []\<rparr>) = None
   \<and> get_active_product (ex_db\<lparr>zones := []\<rparr>) (Some 99) = Inl (DoesNotExist Product)
   \<and> process_sale (ex_db\<lparr>zones := []\<rparr>) ex_user (Some (ex_request [ex_line 99 1]))
       = (ex_db\<lparr>zones := []\<rparr>, Sale_error 500 msg_no_sales_zone)"
  by code_simp

text \<open>
  C2, amended. In a store that keeps its key constraints and resolves a sales zone, for
  every cart with at least one line whose product is missing or inactive, whose sales-zone
  inventory row is absent, or whose quantity exceeds the row's quantity,
  \<^verbatim>\<open>process_sale\<close> answers with status 400 and the messages of all the failing lines, one per
  line in cart order, joined by \<^verbatim>\<open><br>\<close>, and returns the store as it was.
\<close>

theorem process_sale_rejects:
  assumes "keys_ok d" and "get_sales_zone d = Some z"
    and "\<exists>item \<in> set (cart data). \<not> line_in_stock d z item"
  shows "process_sale d u (Some data) =
           (d, Sale_error 400
                 (join ''<br>'' (map (line_message d z)
                    (filter (\<lambda>item. \<not> line_in_stock d z item) (cart data)))))"
  using assms by (rule checkout_rejects)

theorem process_sale_rejects_witness:
  "process_sale ex_db ex_user (Some (ex_request [ex_line 5 20, ex_line 5 3, ex_line 6 1])) =
     (ex_db, Sale_error 400
        ''Stock insuficiente para Te. Disponible: 10, Solicitado: 20<br>Producto con ID 6 no encontrado'')"
proof -
  have h1: "keys_ok ex_db" by code_simp
  have h2: "get_sales_zone ex_db = Some ex_sales_zone" by code_simp
  have h3: "\<exists>item \<in> set (cart (ex_request [ex_line 5 20, ex_line 5 3, ex_line 6 1])).
              \<not> line_in_stock ex_db ex_sales_zone item" by code_simp
  have m: "join ''<br>'' (map (line_message ex_db ex_sales_zone)
             (filter (\<lambda>item. \<not> line_in_stock ex_db ex_sales_zone item)
                (cart (ex_request [ex_line 5 20, ex_line 5 3, ex_line 6 1]))))
           = ''Stock insuficiente para Te. Disponible: 10, Solicitado: 20<br>Producto con ID 6 no encontrado''"
    by code_simp
  show ?thesis using process_sale_rejects [OF h1 h2 h3, of ex_user] unfolding m .
qed

text \<open>
  C3. A request whose cart is empty gets the validation error (status 400), and the
  store is returned as it was.
\<close>

theorem process_sale_empty_cart:
  "cart data = [] \<Longrightarrow> process_sale d u (Some data) = (d, Sale_error 400 msg_cart_empty)"
  by (simp add: process_sale_def)

theorem process_sale_empty_cart_witness:
  "process_sale ex_db ex_user (Some (ex_request [])) = (ex_db, Sale_error 400 msg_cart_empty)"
proof -
  have "cart (ex_request []) = []" by code_simp
  then show ?thesis by (rule process_sale_empty_cart)
qed

text \<open>
  C4. The validation checks each line on its own against the inventory row as the store
  holds it before the sale: a line for an active product with a row in the sales zone is
  accepted exactly when its own quantity is at most the row's, and is refused with the
  message of the insufficient stock otherwise, whatever the other lines ask for. So a
  cart with two lines for one product, each within the stock and together above it,
  passes the validation, whereas the single line that asks for their sum is refused with
  status 400 and the store left as it was. When the store can hold what the checkout
  writes, the cart of two lines is committed, and the row ends with a negative quantity.
\<close>

theorem process_sale_oversells:
  assumes k: "keys_ok d" and z: "get_sales_zone d = Some z"
    and p: "p \<in> set (products d)" "p_is_active p"
    and r: "r \<in> set (inventory_rows d)" "inv_product_id r = p_id p" "inv_zone_id r = z_id z"
    and q: "q1 \<le> inv_quantity r" "q2 \<le> inv_quantity r" "inv_quantity r < q1 + q2"
    and c: "cart data = [\<lparr>item_id = Some (p_id p), item_quantity = Some q1\<rparr>,
                         \<lparr>item_id = Some (p_id p), item_quantity = Some q2\<rparr>]"
  shows "(\<forall>q. check_item d z \<lparr>item_id = Some (p_id p), item_quantity = Some q\<rparr> =
            (if q \<le> inv_quantity r then Inr None
             else Inr (Some (''Stock insuficiente para '' @ p_name p @ ''. Disponible: ''
                    @ str_int (inv_quantity r) @ '', Solicitado: '' @ str_int q))))
         \<and> validate_stock d z (cart data) [] = Inr []
         \<and> process_sale d u
               (Some (data\<lparr>cart := [\<lparr>item_id = Some (p_id p), item_quantity = Some (q1 + q2)\<rparr>]\<rparr>))
             = (d, Sale_error 400
                  (''Stock insuficiente para '' @ p_name p @ ''. Disponible: ''
                    @ str_int (inv_quantity r) @ '', Solicitado: '' @ str_int (q1 + q2)))
         \<and> (checkout_storable d z data \<longrightarrow>
              (\<exists>d' sid tot. process_sale d u (Some data) = (d', Sale_success sid tot)
                 \<and> inventory_rows d' =
                     map (\<lambda>x. if x = r then r\<lparr>inv_quantity := inv_quantity r - (q1 + q2)\<rparr> else x)
                       (inventory_rows d)
                 \<and> inv_quantity r - (q1 + q2) < 0))"
proof (intro conjI impI allI)
  fix q
  show "check_item d z \<lparr>item_id = Some (p_id p), item_quantity = Some q\<rparr> =
            (if q \<le> inv_quantity r then Inr None
             else Inr (Some (''Stock insuficiente para '' @ p_name p @ ''. Disponible: ''
                    @ str_int (inv_quantity r) @ '', Solicitado: '' @ str_int q)))"
    by (rule check_item_stocked [OF k p r])
next
  show "validate_stock d z (cart data) [] = Inr []"
    unfolding c using q by (simp add: check_item_stocked [OF k p r])
next
  have "validate_stock d z [\<lparr>item_id = Some (p_id p), item_quantity = Some (q1 + q2)\<rparr>] [] =
          Inr [''Stock insuficiente para '' @ p_name p @ ''. Disponible: ''
                 @ str_int (inv_quantity r) @ '', Solicitado: '' @ str_int (q1 + q2)]"
    using q by (simp add: check_item_stocked [OF k p r])
  then show "process_sale d u
               (Some (data\<lparr>cart := [\<lparr>item_id = Some (p_id p), item_quantity = Some (q1 + q2)\<rparr>]\<rparr>))
             = (d, Sale_error 400
                  (''Stock insuficiente para '' @ p_name p @ ''. Disponible: ''
                    @ str_int (inv_quantity r) @ '', Solicitado: '' @ str_int (q1 + q2)))"
    by (simp add: process_sale_def z)
next
  assume st: "checkout_storable d z data"
  have ok: "\<forall>item \<in> set (cart data). line_in_stock d z item"
    unfolding c line_in_stock_def using p r q
    by (auto simp: quantity_of_def intro!: bexI [of _ p] bexI [of _ r])
  have ne: "cart data \<noteq> []" by (simp add: c)
  from checkout_commits [OF k z ne ok st, of u] obtain sis tot where
    run: "process_sale d u (Some data) =
           (d\<lparr>sales := sales d @
                 [\<lparr>sale_id = new_id (map sale_id (sales d)),
                   sale_client_id = (if client_id data = Some 0 then None else client_id data),
                   sale_user_id = u_id u, sale_total_amount = tot\<rparr>],
               sale_items := sale_items d @ sis,
               inventory_rows := map (sold z (cart data)) (inventory_rows d)\<rparr>,
            Sale_success (new_id (map sale_id (sales d))) tot)" by blast
  have all: "\<forall>item \<in> set (cart data). item_id item = Some (inv_product_id r)"
    by (simp add: c r)
  have "map (sold z (cart data)) (inventory_rows d) =
        map (\<lambda>x. if x = r then r\<lparr>inv_quantity := inv_quantity r - sum_list (map quantity_of (cart data))\<rparr>
                   else x) (inventory_rows d)"
    by (rule sold_single_row [OF k r(1) r(3) all])
  moreover have "sum_list (map quantity_of (cart data)) = q1 + q2"
    by (simp add: c quantity_of_def)
  ultimately have "inventory_rows (fst (process_sale d u (Some data))) =
        map (\<lambda>x. if x = r then r\<lparr>inv_quantity := inv_quantity r - (q1 + q2)\<rparr> else x)
          (inventory_rows d)"
    by (simp add: run)
  with run q show "\<exists>d' sid tot. process_sale d u (Some data) = (d', Sale_success sid tot)
                 \<and> inventory_rows d' =
                     map (\<lambda>x. if x = r then r\<lparr>inv_quantity := inv_quantity r - (q1 + q2)\<rparr> else x)
                       (inventory_rows d)
                 \<and> inv_quantity r - (q1 + q2) < 0"
    by auto
qed

theorem process_sale_oversells_witness:
  "check_item ex_db ex_sales_zone \<lparr>item_id = Some (p_id ex_tea), item_quantity = Some 10\<rparr> = Inr None
   \<and> check_item ex_db ex_sales_zone \<lparr>item_id = Some (p_id ex_tea), item_quantity = Some 11\<rparr>
       = Inr (Some ''Stock insuficiente para Te. Disponible: 10, Solicitado: 11'')
   \<and> validate_stock ex_db ex_sales_zone (cart (ex_request [ex_line 5 6, ex_line 5 7])) [] = Inr []
   \<and> process_sale ex_db ex_user
         (Some ((ex_request [ex_line 5 6, ex_line 5 7])
            \<lparr>cart := [\<lparr>item_id = Some (p_id ex_tea), item_quantity = Some (6 + 7)\<rparr>]\<rparr>))
       = (ex_db, Sale_error 400 ''Stock insuficiente para Te. Disponible: 10, Solicitado: 13'')
   \<and> (\<exists>d' sid tot. process_sale ex_db ex_user (Some (ex_request [ex_line 5 6, ex_line 5 7]))
                   = (d', Sale_success sid tot)
           \<and> inventory_rows d' =
               map (\<lambda>x. if x = ex_tea_row
                         then ex_tea_row\<lparr>inv_quantity := inv_quantity ex_tea_row - (6 + 7)\<rparr> else x)
                 (inventory_rows ex_db)
           \<and> inv_quantity ex_tea_row - (6 + 7) < 0)"
proof -
  have h1: "keys_ok ex_db" by code_simp
  have h2: "get_sales_zone ex_db = Some ex_sales_zone" by code_simp
  have h3: "ex_tea \<in> set (products ex_db)" by code_simp
  have h4: "p_is_active ex_tea" by code_simp
  have h5: "ex_tea_row \<in> set (inventory_rows ex_db)" by code_simp
  have h6: "inv_product_id ex_tea_row = p_id ex_tea" by code_simp
  have h7: "inv_zone_id ex_tea_row = z_id ex_sales_zone" by code_simp
  have h8: "6 \<le> inv_quantity ex_tea_row" by code_simp
  have h9: "7 \<le> inv_quantity ex_tea_row" by code_simp
  have h10: "inv_quantity ex_tea_row < 6 + 7" by code_simp
  have h11: "cart (ex_request [ex_line 5 6, ex_line 5 7]) =
               [\<lparr>item_id = Some (p_id ex_tea), item_quantity = Some 6\<rparr>,
                \<lparr>item_id = Some (p_id ex_tea), item_quantity = Some 7\<rparr>]" by code_simp
  have h12: "checkout_storable ex_db ex_sales_zone (ex_request [ex_line 5 6, ex_line 5 7])"
    by code_simp
  have m10: "(if (10::int) \<le> inv_quantity ex_tea_row then Inr None
             else Inr (Some (''Stock insuficiente para '' @ p_name ex_tea @ ''. Disponible: ''
                    @ str_int (inv_quantity ex_tea_row) @ '', Solicitado: '' @ str_int 10)))
            = (Inr None :: exn + string option)" by code_simp
  have m11: "(if (11::int) \<le> inv_quantity ex_tea_row then Inr None
             else Inr (Some (''Stock insuficiente para '' @ p_name ex_tea @ ''. Disponible: ''
                    @ str_int (inv_quantity ex_tea_row) @ '', Solicitado: '' @ str_int 11)))
            = (Inr (Some ''Stock insuficiente para Te. Disponible: 10, Solicitado: 11'')
                :: exn + string option)" by code_simp
  have m13: "''Stock insuficiente para '' @ p_name ex_tea @ ''. Disponible: ''
                    @ str_int (inv_quantity ex_tea_row) @ '', Solicitado: '' @ str_int (6 + 7)
             = ''Stock insuficiente para Te. Disponible: 10, Solicitado: 13''" by code_simp
  note t = process_sale_oversells [OF h1 h2 h3 h4 h5 h6 h7 h8 h9 h10 h11, of ex_user]
  note t1 = t [THEN conjunct1]
  note t2 = t [THEN conjunct2, THEN conjunct1]
  note t3 = t [THEN conjunct2, THEN conjunct2, THEN conjunct1]
  note t4 = t [THEN conjunct2, THEN conjunct2, THEN conjunct2, THEN mp, OF h12]
  have a: "check_item ex_db ex_sales_zone
             \<lparr>item_id = Some (p_id ex_tea), item_quantity = Some 10\<rparr> = Inr None"
    by (rule trans [OF t1 [THEN spec, of 10] m10])
  have b: "check_item ex_db ex_sales_zone
             \<lparr>item_id = Some (p_id ex_tea), item_quantity = Some 11\<rparr>
           = Inr (Some ''Stock insuficiente para Te. Disponible: 10, Solicitado: 11'')"
    by (rule trans [OF t1 [THEN spec, of 11] m11])
  have d: "process_sale ex_db ex_user
         (Some ((ex_request [ex_line 5 6, ex_line 5 7])
            \<lparr>cart := [\<lparr>item_id = Some (p_id ex_tea), item_quantity = Some (6 + 7)\<rparr>]\<rparr>))
       = (ex_db, Sale_error 400 ''Stock insuficiente para Te. Disponible: 10, Solicitado: 13'')"
    using t3 unfolding m13 .
  from a b t2 d t4 show ?thesis by (intro conjI)
qed

text \<open>
  In the sample store, six and seven units out of ten leave minus three.
\<close>

lemma process_sale_oversells_example:
  "inventory_rows (fst (process_sale ex_db ex_user (Some (ex_request [ex_line 5 6, ex_line 5 7]))))
     = [\<lparr>inv_id = 1, inv_product_id = 5, inv_zone_id = 2, inv_quantity = - 3\<rparr>,
        \<lparr>inv_id = 2, inv_product_id = 6, inv_zone_id = 2, inv_quantity = 4\<rparr>,
        \<lparr>inv_id = 3, inv_product_id = 5, inv_zone_id = 1, inv_quantity = 0\<rparr>]"
  by code_simp

text \<open>
  Were the quantity column of the inventory rows one that holds no negative number, the
  same checkout would be undone and answered with a server error.
\<close>

lemma process_sale_oversells_unsigned_example:
  "process_sale (ex_db\<lparr>schema := ex_schema\<lparr>inventory_quantity_range := (0, 2147483647)\<rparr>\<rparr>) ex_user
       (Some (ex_request [ex_line 5 6, ex_line 5 7]))
     = (ex_db\<lparr>schema := ex_schema\<lparr>inventory_quantity_range := (0, 2147483647)\<rparr>\<rparr>,
        Sale_server_error OutOfRange)"
  by code_simp

text \<open>
  C5. No line is refused for a quantity that is zero, missing or negative: whenever the
  sales-zone inventory row of its product holds a quantity that is not negative, the
  validation of the line has no message for it, unless the product is inactive, in which
  case the message is that of a product not found. A line without a quantity counts for
  zero units. When the store can hold what the checkout writes, a cart made of such a line
  of an active product is committed, the sale item created carries the line's quantity
  (zero for a missing one), the row gets its quantity minus the line's, and for a negative
  quantity that is more than it had.
\<close>

theorem nonpositive_quantity_accepted:
  assumes k: "keys_ok d"
    and p: "p \<in> set (products d)"
    and r: "r \<in> set (inventory_rows d)" "inv_product_id r = p_id p" "inv_zone_id r = z_id z"
    and q: "0 \<le> inv_quantity r" "case qo of None \<Rightarrow> True | Some q \<Rightarrow> q \<le> 0"
  shows "check_item d z \<lparr>item_id = Some (p_id p), item_quantity = qo\<rparr> =
           (if p_is_active p then Inr None
            else Inr (Some (''Producto con ID '' @ str_int (p_id p) @ '' no encontrado'')))
         \<and> (p_is_active p \<and> get_sales_zone d = Some z
              \<and> cart data = [\<lparr>item_id = Some (p_id p), item_quantity = qo\<rparr>]
              \<and> checkout_storable d z data \<longrightarrow>
             (\<exists>d' sid tot. process_sale d u (Some data) = (d', Sale_success sid tot)
                \<and> inventory_rows d' =
                    map (\<lambda>x. if x = r
                              then r\<lparr>inv_quantity :=
                                       inv_quantity r - (case qo of None \<Rightarrow> 0 | Some q \<Rightarrow> q)\<rparr>
                              else x) (inventory_rows d)
                \<and> map si_quantity (drop (length (sale_items d)) (sale_items d'))
                    = [case qo of None \<Rightarrow> 0 | Some q \<Rightarrow> q]
                \<and> (\<forall>q. qo = Some q \<and> q < 0 \<longrightarrow> inv_quantity r < inv_quantity r - q)))"
proof (intro conjI impI)
  let ?item = "\<lparr>item_id = Some (p_id p), item_quantity = qo\<rparr>"
  have qi: "quantity_of ?item \<le> 0" using q(2) by (simp add: quantity_of_def split: option.splits)
  show "check_item d z ?item =
           (if p_is_active p then Inr None
            else Inr (Some (''Producto con ID '' @ str_int (p_id p) @ '' no encontrado'')))"
  proof (cases "p_is_active p")
    case True
    have "line_in_stock d z ?item"
      unfolding line_in_stock_def using p r q(1) qi True
      by (intro bexI [of _ p] conjI bexI [of _ r]) simp_all
    then have "check_item d z ?item = Inr None" by (rule check_item_in_stock [OF k])
    with True show ?thesis by simp
  next
    case False
    from k have "distinct (map p_id (products d))" by (simp add: keys_ok_def)
    then have "filter (\<lambda>y. p_id y = p_id p \<and> p_is_active y) (products d) = []"
      using filter_key_unique [of p_id "products d" p p_is_active] p(1) False by simp
    then have "get_active_product d (Some (p_id p)) = Inl (DoesNotExist Product)"
      by (simp add: get_active_product_def qs_get_def)
    with False show ?thesis by (simp add: check_item_def str_opt_int_def)
  qed
next
  let ?item = "\<lparr>item_id = Some (p_id p), item_quantity = qo\<rparr>"
  let ?q = "case qo of None \<Rightarrow> 0 | Some q \<Rightarrow> q"
  assume a: "p_is_active p \<and> get_sales_zone d = Some z \<and> cart data = [?item]
             \<and> checkout_storable d z data"
  then have act: "p_is_active p" and z: "get_sales_zone d = Some z" and c: "cart data = [?item]"
    and st: "checkout_storable d z data"
    by simp_all
  have qe: "quantity_of ?item = ?q" by (simp add: quantity_of_def)
  have qi: "quantity_of ?item \<le> 0" using q(2) by (simp add: quantity_of_def split: option.splits)
  have ok: "line_in_stock d z ?item"
    unfolding line_in_stock_def using p r q(1) qi act
    by (intro bexI [of _ p] conjI bexI [of _ r]) simp_all
  have oks: "\<forall>item \<in> set (cart data). line_in_stock d z item" by (simp add: c ok)
  have ne: "cart data \<noteq> []" by (simp add: c)
  from checkout_commits [OF k z ne oks st, of u] obtain sis tot where
    run: "process_sale d u (Some data) =
           (d\<lparr>sales := sales d @
                 [\<lparr>sale_id = new_id (map sale_id (sales d)),
                   sale_client_id = (if client_id data = Some 0 then None else client_id data),
                   sale_user_id = u_id u, sale_total_amount = tot\<rparr>],
               sale_items := sale_items d @ sis,
               inventory_rows := map (sold z (cart data)) (inventory_rows d)\<rparr>,
            Sale_success (new_id (map sale_id (sales d))) tot)"
    and sl: "list_all2 (sold_line d (new_id (map sale_id (sales d)))) (cart data) sis"
    by blast
  from sl obtain si where si: "sis = [si]"
    and s1: "sold_line d (new_id (map sale_id (sales d))) ?item si"
    unfolding c by (auto simp: list_all2_Cons1)
  from s1 have sq: "si_quantity si = ?q" using qe by (simp add: sold_line_def)
  have all: "\<forall>item \<in> set (cart data). item_id item = Some (inv_product_id r)"
    by (simp add: c r)
  have "map (sold z (cart data)) (inventory_rows d) =
        map (\<lambda>x. if x = r then r\<lparr>inv_quantity := inv_quantity r - sum_list (map quantity_of (cart data))\<rparr>
                   else x) (inventory_rows d)"
    by (rule sold_single_row [OF k r(1) r(3) all])
  then have inv: "inventory_rows (fst (process_sale d u (Some data))) =
        map (\<lambda>x. if x = r then r\<lparr>inv_quantity := inv_quantity r - ?q\<rparr> else x)
          (inventory_rows d)"
    by (simp add: run c qe)
  have its: "map si_quantity (drop (length (sale_items d))
               (sale_items (fst (process_sale d u (Some data))))) = [?q]"
    by (simp add: run si sq)
  have neg: "\<forall>q. qo = Some q \<and> q < 0 \<longrightarrow> inv_quantity r < inv_quantity r - q" by simp
  from run inv its neg
  show "\<exists>d' sid tot. process_sale d u (Some data) = (d', Sale_success sid tot)
                \<and> inventory_rows d' =
                    map (\<lambda>x. if x = r
                              then r\<lparr>inv_quantity := inv_quantity r - ?q\<rparr>
                              else x) (inventory_rows d)
                \<and> map si_quantity (drop (length (sale_items d)) (sale_items d')) = [?q]
                \<and> (\<forall>q. qo = Some q \<and> q < 0 \<longrightarrow> inv_quantity r < inv_quantity r - q)"
    by (intro exI [of _ "fst (process_sale d u (Some data))"]
              exI [of _ "new_id (map sale_id (sales d))"] exI [of _ tot]) simp
qed

theorem nonpositive_quantity_accepted_witness:
  "check_item ex_db ex_sales_zone \<lparr>item_id = Some (p_id ex_tea), item_quantity = None\<rparr> = Inr None
   \<and> (\<exists>d' sid tot.
         process_sale ex_db ex_user
           (Some (ex_request [\<lparr>item_id = Some (p_id ex_tea), item_quantity = None\<rparr>]))
           = (d', Sale_success sid tot)
        \<and> inventory_rows d' =
            map (\<lambda>x. if x = ex_tea_row
                      then ex_tea_row\<lparr>inv_quantity := inv_quantity ex_tea_row - 0\<rparr>
                      else x) (inventory_rows ex_db)
        \<and> map si_quantity (drop (length (sale_items ex_db)) (sale_items d')) = [0])
   \<and> check_item ex_db ex_sales_zone \<lparr>item_id = Some (p_id ex_tea), item_quantity = Some (- 4)\<rparr>
       = Inr None
   \<and> (\<exists>d' sid tot.
         process_sale ex_db ex_user
           (Some (ex_request [\<lparr>item_id = Some (p_id ex_tea), item_quantity = Some (- 4)\<rparr>]))
           = (d', Sale_success sid tot)
        \<and> inventory_rows d' =
            map (\<lambda>x. if x = ex_tea_row
                      then ex_tea_row\<lparr>inv_quantity := inv_quantity ex_tea_row - (- 4)\<rparr>
                      else x) (inventory_rows ex_db)
        \<and> map si_quantity (drop (length (sale_items ex_db)) (sale_items d')) = [- 4]
        \<and> inv_quantity ex_tea_row < inv_quantity ex_tea_row - (- 4))"
proof -
  let ?none = "\<lparr>item_id = Some (p_id ex_tea), item_quantity = None\<rparr>"
  let ?neg = "\<lparr>item_id = Some (p_id ex_tea), item_quantity = Some (- 4)\<rparr>"
  have h1: "keys_ok ex_db" by code_simp
  have h2: "ex_tea \<in> set (products ex_db)" by code_simp
  have h3: "p_is_active ex_tea" by code_simp
  have h5: "ex_tea_row \<in> set (inventory_rows ex_db)" by code_simp
  have h6: "inv_product_id ex_tea_row = p_id ex_tea" by code_simp
  have h7: "inv_zone_id ex_tea_row = z_id ex_sales_zone" by code_simp
  have h8: "0 \<le> inv_quantity ex_tea_row" by code_simp
  have n9: "case (None :: int option) of None \<Rightarrow> True | Some q \<Rightarrow> q \<le> 0" by simp
  have m9: "case Some (- 4 :: int) of None \<Rightarrow> True | Some q \<Rightarrow> q \<le> 0" by simp
  have g1: "get_sales_zone ex_db = Some ex_sales_zone" by code_simp
  have n2: "cart (ex_request [?none]) = [?none]" by code_simp
  have m2: "cart (ex_request [?neg]) = [?neg]" by code_simp
  have n3: "checkout_storable ex_db ex_sales_zone (ex_request [?none])" by code_simp
  have m3: "checkout_storable ex_db ex_sales_zone (ex_request [?neg])" by code_simp
  note tn = nonpositive_quantity_accepted [OF h1 h2 h5 h6 h7 h8 n9,
      of "ex_request [?none]" ex_user, unfolded option.case]
  note tm = nonpositive_quantity_accepted [OF h1 h2 h5 h6 h7 h8 m9,
      of "ex_request [?neg]" ex_user, unfolded option.case]
  have pn: "p_is_active ex_tea \<and> get_sales_zone ex_db = Some ex_sales_zone
            \<and> cart (ex_request [?none]) = [?none]
            \<and> checkout_storable ex_db ex_sales_zone (ex_request [?none])"
    using h3 g1 n2 n3 by (intro conjI)
  have pm: "p_is_active ex_tea \<and> get_sales_zone ex_db = Some ex_sales_zone
            \<and> cart (ex_request [?neg]) = [?neg]
            \<and> checkout_storable ex_db ex_sales_zone (ex_request [?neg])"
    using h3 g1 m2 m3 by (intro conjI)
  from tn [THEN conjunct1] h3 have a: "check_item ex_db ex_sales_zone ?none = Inr None" by simp
  from tn [THEN conjunct2, THEN mp, OF pn] have b: "\<exists>d' sid tot.
         process_sale ex_db ex_user (Some (ex_request [?none])) = (d', Sale_success sid tot)
        \<and> inventory_rows d' =
            map (\<lambda>x. if x = ex_tea_row
                      then ex_tea_row\<lparr>inv_quantity := inv_quantity ex_tea_row - 0\<rparr>
                      else x) (inventory_rows ex_db)
        \<and> map si_quantity (drop (length (sale_items ex_db)) (sale_items d')) = [0]"
    by (elim exE conjE) (intro exI conjI, assumption+)
  from tm [THEN conjunct1] h3 have c: "check_item ex_db ex_sales_zone ?neg = Inr None" by simp
  have m4: "inv_quantity ex_tea_row < inv_quantity ex_tea_row - (- 4)" by simp
  from tm [THEN conjunct2, THEN mp, OF pm] have d: "\<exists>d' sid tot.
         process_sale ex_db ex_user (Some (ex_request [?neg])) = (d', Sale_success sid tot)
        \<and> inventory_rows d' =
            map (\<lambda>x. if x = ex_tea_row
                      then ex_tea_row\<lparr>inv_quantity := inv_quantity ex_tea_row - (- 4)\<rparr>
                      else x) (inventory_rows ex_db)
        \<and> map si_quantity (drop (length (sale_items ex_db)) (sale_items d')) = [- 4]
        \<and> inv_quantity ex_tea_row < inv_quantity ex_tea_row - (- 4)"
    by (elim exE conjE) (intro exI conjI, assumption+, rule m4)
  from a b c d show ?thesis by (intro conjI)
qed

text \<open>
  A line without a quantity sells zero units.
\<close>

lemma missing_quantity_example:
  "process_sale ex_db ex_user (Some (ex_request [\<lparr>item_id = Some 5, item_quantity = None\<rparr>]))
     = (ex_db\<lparr>sales := [\<lparr>sale_id = 1, sale_client_id = None, sale_user_id = 3,
                         sale_total_amount = 0\<rparr>],
              sale_items := [\<lparr>si_id = 1, si_sale_id = 1, si_product_id = 5, si_quantity = 0,
                               si_price_at_sale = 1000\<rparr>]\<rparr>,
        Sale_success 1 0)"
  by code_simp

text \<open>
  C8, as stated, fails: with no active zone and an empty cart the answer is the
  validation error of the empty cart (status 400), not a server error.
\<close>

theorem sales_zone_resolution_counterexample:
  "list_all (\<lambda>y. \<not> z_is_active y) (zones (ex_db\<lparr>zones := []\<rparr>))
   \<and> process_sale (ex_db\<lparr>zones := []\<rparr>) ex_user (Some (ex_request []))
       = (ex_db\<lparr>zones := []\<rparr>, Sale_error 400 msg_cart_empty)"
  by code_simp

text \<open>
  C8, amended. The sales zone is the first active zone, in queryset order, whose name
  contains \<^verbatim>\<open>venta\<close> without regard to case; when no active zone has such a name it is the
  first active zone; when no zone is active there is none, \<^verbatim>\<open>process_sale\<close> answers a
  request with a non-empty cart with the server error (status 500), and whatever the
  request it returns the store as it was. The zone table enters a checkout through the
  zone resolved at that call alone: with another zone table that resolves the same sales
  zone the checkout is the same.
\<close>

theorem sales_zone_resolution:
  "(\<forall>pre z post.
      zones d = pre @ z # post \<and> z_is_active z \<and> icontains ''venta'' (z_name z)
      \<and> (\<forall>y \<in> set pre. \<not> (icontains ''venta'' (z_name y) \<and> z_is_active y))
      \<longrightarrow> get_sales_zone d = Some z)
   \<and> (\<forall>pre z post.
      (\<forall>y \<in> set (zones d). \<not> (icontains ''venta'' (z_name y) \<and> z_is_active y))
      \<and> zones d = pre @ z # post \<and> z_is_active z \<and> (\<forall>y \<in> set pre. \<not> z_is_active y)
      \<longrightarrow> get_sales_zone d = Some z)
   \<and> ((\<forall>y \<in> set (zones d). \<not> z_is_active y)
      \<longrightarrow> get_sales_zone d = None
         \<and> (cart data \<noteq> [] \<longrightarrow>
              process_sale d u (Some data) = (d, Sale_error 500 msg_no_sales_zone))
         \<and> fst (process_sale d u body) = d)
   \<and> (\<forall>zs. get_sales_zone (d\<lparr>zones := zs\<rparr>) = get_sales_zone d \<longrightarrow>
        process_sale (d\<lparr>zones := zs\<rparr>) u body =
          (case process_sale d u body of (d', response) \<Rightarrow> (d'\<lparr>zones := zs\<rparr>, response)))"
proof (intro conjI allI impI)
  fix pre z post
  assume a: "zones d = pre @ z # post \<and> z_is_active z \<and> icontains ''venta'' (z_name z)
      \<and> (\<forall>y \<in> set pre. \<not> (icontains ''venta'' (z_name y) \<and> z_is_active y))"
  let ?P = "\<lambda>z. icontains ''venta'' (z_name z) \<and> z_is_active z"
  from a have "?P z" and "\<forall>y \<in> set pre. \<not> ?P y" by blast+
  then have "find ?P (pre @ z # post) = Some z" by (rule find_first)
  with a have "find ?P (zones d) = Some z" by metis
  then show "get_sales_zone d = Some z" unfolding get_sales_zone_def by simp
next
  fix pre z post
  assume a: "(\<forall>y \<in> set (zones d). \<not> (icontains ''venta'' (z_name y) \<and> z_is_active y))
      \<and> zones d = pre @ z # post \<and> z_is_active z \<and> (\<forall>y \<in> set pre. \<not> z_is_active y)"
  let ?P = "\<lambda>z. icontains ''venta'' (z_name z) \<and> z_is_active z"
  from a have "\<not> (\<exists>y. y \<in> set (zones d) \<and> ?P y)" by blast
  then have n: "find ?P (zones d) = None" unfolding find_None_iff .
  from a have "z_is_active z" and "\<forall>y \<in> set pre. \<not> z_is_active y" by blast+
  then have "find z_is_active (pre @ z # post) = Some z" by (rule find_first)
  with a have "find z_is_active (zones d) = Some z" by metis
  with n show "get_sales_zone d = Some z" unfolding get_sales_zone_def by simp
next
  assume a: "\<forall>y \<in> set (zones d). \<not> z_is_active y"
  let ?P = "\<lambda>z. icontains ''venta'' (z_name z) \<and> z_is_active z"
  from a have "\<not> (\<exists>y. y \<in> set (zones d) \<and> ?P y)" by blast
  then have n1: "find ?P (zones d) = None" unfolding find_None_iff .
  from a have "\<not> (\<exists>y. y \<in> set (zones d) \<and> z_is_active y)" by blast
  then have n2: "find z_is_active (zones d) = None" unfolding find_None_iff .
  from n1 n2 show none: "get_sales_zone d = None" unfolding get_sales_zone_def by simp
  show "process_sale d u (Some data) = (d, Sale_error 500 msg_no_sales_zone)" if "cart data \<noteq> []"
    using that by (simp add: process_sale_def none)
  show "fst (process_sale d u body) = d"
  proof (cases body)
    case None
    then show ?thesis by (simp add: process_sale_def)
  next
    case (Some data')
    then show ?thesis by (simp add: process_sale_def none)
  qed
next
  fix zs
  assume "get_sales_zone (d\<lparr>zones := zs\<rparr>) = get_sales_zone d"
  then show "process_sale (d\<lparr>zones := zs\<rparr>) u body =
          (case process_sale d u body of (d', response) \<Rightarrow> (d'\<lparr>zones := zs\<rparr>, response))"
    by (rule process_sale_zones)
qed

theorem sales_zone_resolution_witness:
  "get_sales_zone ex_db = Some ex_sales_zone
   \<and> get_sales_zone (ex_db\<lparr>zones := [ex_closed_zone, ex_back_zone]\<rparr>) = Some ex_back_zone
   \<and> get_sales_zone (ex_db\<lparr>zones := [ex_closed_zone]\<rparr>) = None
   \<and> process_sale (ex_db\<lparr>zones := [ex_closed_zone]\<rparr>) ex_user (Some (ex_request [ex_line 5 2]))
       = (ex_db\<lparr>zones := [ex_closed_zone]\<rparr>, Sale_error 500 msg_no_sales_zone)
   \<and> process_sale (ex_db\<lparr>zones := [ex_sales_zone]\<rparr>) ex_user (Some (ex_request [ex_line 5 2]))
       = (case process_sale ex_db ex_user (Some (ex_request [ex_line 5 2])) of
            (d', response) \<Rightarrow> (d'\<lparr>zones := [ex_sales_zone]\<rparr>, response))"
proof -
  have h1: "zones ex_db = [ex_back_zone] @ ex_sales_zone # []
      \<and> z_is_active ex_sales_zone \<and> icontains ''venta'' (z_name ex_sales_zone)
      \<and> (\<forall>y \<in> set [ex_back_zone]. \<not> (icontains ''venta'' (z_name y) \<and> z_is_active y))"
    by code_simp
  have c1: "get_sales_zone ex_db = Some ex_sales_zone"
    using sales_zone_resolution [where d = ex_db] h1 by blast
  let ?d2 = "ex_db\<lparr>zones := [ex_closed_zone, ex_back_zone]\<rparr>"
  have h2: "(\<forall>y \<in> set (zones ?d2). \<not> (icontains ''venta'' (z_name y) \<and> z_is_active y))
      \<and> zones ?d2 = [ex_closed_zone] @ ex_back_zone # []
      \<and> z_is_active ex_back_zone \<and> (\<forall>y \<in> set [ex_closed_zone]. \<not> z_is_active y)"
    by code_simp
  have c2: "get_sales_zone ?d2 = Some ex_back_zone"
    using sales_zone_resolution [where d = ?d2] h2 by blast
  let ?d3 = "ex_db\<lparr>zones := [ex_closed_zone]\<rparr>"
  have h3: "\<forall>y \<in> set (zones ?d3). \<not> z_is_active y" by code_simp
  have h4: "cart (ex_request [ex_line 5 2]) \<noteq> []" by code_simp
  have c3: "get_sales_zone ?d3 = None
     \<and> process_sale ?d3 ex_user (Some (ex_request [ex_line 5 2]))
         = (?d3, Sale_error 500 msg_no_sales_zone)"
    using sales_zone_resolution [where d = ?d3 and data = "ex_request [ex_line 5 2]" and u = ex_user]
      h3 h4 by blast
  have h5: "get_sales_zone (ex_db\<lparr>zones := [ex_sales_zone]\<rparr>) = get_sales_zone ex_db"
    by code_simp
  have c4: "process_sale (ex_db\<lparr>zones := [ex_sales_zone]\<rparr>) ex_user (Some (ex_request [ex_line 5 2]))
       = (case process_sale ex_db ex_user (Some (ex_request [ex_line 5 2])) of
            (d', response) \<Rightarrow> (d'\<lparr>zones := [ex_sales_zone]\<rparr>, response))"
    using sales_zone_resolution [where d = ex_db and u = ex_user
        and body = "Some (ex_request [ex_line 5 2])"] h5 by blast
  from c1 c2 c3 c4 show ?thesis by blast
qed

section \<open>Supplier orders: properties\<close>

subsection \<open>Auxiliary facts\<close>

lemma get_order_found:
  assumes "distinct (map so_id (supplier_orders d))" "order \<in> set (supplier_orders d)"
  shows "qs_get SupplierOrder (\<lambda>x. so_id x = so_id order) (supplier_orders d) = Inr order"
proof -
  have "qs_get SupplierOrder (\<lambda>y. so_id y = so_id order \<and> True) (supplier_orders d) = Inr order"
    using assms by (intro qs_get_unique) auto
  then show ?thesis by simp
qed

lemma save_order_item_last:
  assumes "\<forall>i \<in> set rows. soi_id i \<noteq> soi_id row" "soi_id row' = soi_id row"
  shows "save_order_item row' (rows @ [row]) = rows @ [row']"
proof -
  have "map (\<lambda>r. if soi_id r = soi_id row' then row' else r) rows = rows"
    using assms by (intro map_idI) auto
  then show ?thesis using assms by (simp add: save_order_item_def)
qed

lemma order_lines_of_priced:
  assumes "\<forall>x \<in> set xs. soi_unit_price (fst x) \<noteq> None"
  shows "\<exists>items_data. order_lines_of xs = Inr items_data"
  using assms
proof (induction xs)
  case Nil
  show ?case by simp
next
  case (Cons x xs)
  obtain i pr where x: "x = (i, pr)" by (cases x)
  from Cons.prems x obtain c where c: "soi_unit_price i = Some c" by auto
  from Cons.IH Cons.prems obtain ls where "order_lines_of xs = Inr ls" by auto
  then show ?case by (simp add: x c)
qed

lemma order_summary_priced:
  assumes "order_priced d order_pk"
  shows "\<exists>res. order_summary d order_pk action item = Order_success res \<and> res_action res = action"
proof -
  let ?join = "\<lambda>order_item. case find (\<lambda>p. p_id p = soi_product_id order_item) (products d) of
               None \<Rightarrow> None
             | Some product \<Rightarrow> Some (order_item, product)"
  have "\<forall>x \<in> set (List.map_filter ?join
          (filter (\<lambda>order_item. soi_order_id order_item = order_pk) (supplier_order_items d))).
          soi_unit_price (fst x) \<noteq> None"
    using assms by (auto simp: order_priced_def List.map_filter_def split: option.splits)
  from order_lines_of_priced [OF this] obtain ls where "order_lines d order_pk = Inr ls"
    unfolding order_lines_def by blast
  then show ?thesis by (simp add: order_summary_def)
qed

lemma item_storable_accepted:
  assumes "item_storable d (soi_quantity item) (soi_unit_price item)"
  shows "order_item_refused d item = None"
  using assms by (auto simp: item_storable_def order_item_refused_def split: option.splits)

lemma add_product_creates:
  assumes perm: "may_edit_orders u"
    and ok: "distinct (map so_id (supplier_orders d))" "order \<in> set (supplier_orders d)"
      "so_status order = ''PENDING''"
    and pk: "distinct (map p_id (products d))" "p \<in> set (products d)" "p_is_active p"
    and ps: "find (\<lambda>ps. ps_product_id ps = p_id p \<and> ps_supplier_id ps = so_supplier_id order)
               (product_suppliers d) = Some ps"
    and new: "order_items_of d (so_id order) (p_id p) = []"
    and q: "0 < q"
    and st: "item_storable d q (resolve_unit_price ps p)"
    and pr: "order_priced d (so_id order)"
  shows "\<exists>res. add_product_to_order d u (so_id order)
                  (Some \<lparr>req_product_id = Some (p_id p), req_quantity = Some q\<rparr>) =
           (d\<lparr>supplier_order_items := supplier_order_items d @
                 [\<lparr>soi_id = new_id (map soi_id (supplier_order_items d)),
                   soi_order_id = so_id order, soi_product_id = p_id p, soi_quantity = q,
                   soi_unit_price = resolve_unit_price ps p\<rparr>]\<rparr>,
            Order_success res) \<and> res_action res = ''created''"
proof -
  let ?item = "\<lparr>soi_id = new_id (map soi_id (supplier_order_items d)),
                soi_order_id = so_id order, soi_product_id = p_id p, soi_quantity = q,
                soi_unit_price = resolve_unit_price ps p\<rparr>"
  let ?d1 = "d\<lparr>supplier_order_items := supplier_order_items d @ [?item]\<rparr>"
  have go: "qs_get SupplierOrder (\<lambda>x. so_id x = so_id order) (supplier_orders d) = Inr order"
    by (rule get_order_found [OF ok(1,2)])
  have gp: "get_active_product d (Some (p_id p)) = Inr p"
    by (rule get_active_product_found [OF pk])
  from new have fi: "find (\<lambda>i. soi_order_id i = so_id order \<and> soi_product_id i = p_id p)
                       (supplier_order_items d) = None"
    by (simp add: order_items_of_def find_filter_hd)
  have acc: "order_item_refused d ?item = None"
    by (rule item_storable_accepted) (simp add: st)
  have run: "add_product_to_order d u (so_id order)
                  (Some \<lparr>req_product_id = Some (p_id p), req_quantity = Some q\<rparr>) =
               (?d1, order_summary ?d1 (so_id order) ''created'' ?item)"
    using perm ok(3) q by (simp add: add_product_to_order_def go gp ps fi Let_def acc)
  have "order_priced ?d1 (so_id order)"
    using pr st by (auto simp: order_priced_def item_storable_def split: option.splits)
  from order_summary_priced [OF this, of "''created''" ?item] show ?thesis
    unfolding run by blast
qed

lemma add_product_updates:
  assumes perm: "may_edit_orders u"
    and ok: "distinct (map so_id (supplier_orders d))" "order \<in> set (supplier_orders d)"
      "so_status order = ''PENDING''"
    and pk: "distinct (map p_id (products d))" "p \<in> set (products d)" "p_is_active p"
    and ps: "find (\<lambda>ps. ps_product_id ps = p_id p \<and> ps_supplier_id ps = so_supplier_id order)
               (product_suppliers d) = Some ps"
    and items: "supplier_order_items d = rows @ [row]"
      "order_items_of (d\<lparr>supplier_order_items := rows\<rparr>) (so_id order) (p_id p) = []"
      "soi_order_id row = so_id order" "soi_product_id row = p_id p"
      "\<forall>i \<in> set rows. soi_id i \<noteq> soi_id row"
    and q: "0 < q"
    and st: "item_storable d (soi_quantity row + q) (resolve_unit_price ps p)"
    and pr: "order_priced (d\<lparr>supplier_order_items := rows\<rparr>) (so_id order)"
  shows "\<exists>res. add_product_to_order d u (so_id order)
                  (Some \<lparr>req_product_id = Some (p_id p), req_quantity = Some q\<rparr>) =
           (d\<lparr>supplier_order_items := rows @
                 [row\<lparr>soi_quantity := soi_quantity row + q,
                      soi_unit_price := resolve_unit_price ps p\<rparr>]\<rparr>,
            Order_success res) \<and> res_action res = ''updated''"
proof -
  have go: "qs_get SupplierOrder (\<lambda>x. so_id x = so_id order) (supplier_orders d) = Inr order"
    by (rule get_order_found [OF ok(1,2)])
  have gp: "get_active_product d (Some (p_id p)) = Inr p"
    by (rule get_active_product_found [OF pk])
  let ?P = "\<lambda>i. soi_order_id i = so_id order \<and> soi_product_id i = p_id p"
  from items(2) have "\<forall>y \<in> set rows. \<not> ?P y"
    by (simp add: order_items_of_def filter_empty_conv)
  moreover have "?P row" using items(3,4) by simp
  ultimately have "find ?P (rows @ row # []) = Some row" by (rule find_first [rotated])
  then have fi: "find ?P (supplier_order_items d) = Some row" by (simp add: items(1))
  let ?row' = "row\<lparr>soi_quantity := soi_quantity row + q, soi_unit_price := resolve_unit_price ps p\<rparr>"
  let ?d1 = "d\<lparr>supplier_order_items := rows @ [?row']\<rparr>"
  have sv: "save_order_item ?row' (supplier_order_items d) = rows @ [?row']"
    unfolding items(1) by (rule save_order_item_last [OF items(5)]) simp
  have acc: "order_item_refused d ?row' = None"
    by (rule item_storable_accepted) (simp add: st)
  have run: "add_product_to_order d u (so_id order)
                  (Some \<lparr>req_product_id = Some (p_id p), req_quantity = Some q\<rparr>) =
               (?d1, order_summary ?d1 (so_id order) ''updated'' ?row')"
    using perm ok(3) q by (simp add: add_product_to_order_def go gp ps fi Let_def acc sv)
  have "order_priced ?d1 (so_id order)"
    using pr st by (auto simp: order_priced_def item_storable_def split: option.splits)
  from order_summary_priced [OF this, of "''updated''" ?row'] show ?thesis
    unfolding run by blast
qed

subsection \<open>The claims about supplier orders\<close>

text \<open>
  C6, as stated, fails. Order 13 is pending and already holds five units of the product:
  adding one and then two units leaves one item of eight units. Order 12 is pending for a
  supplier that has no relationship with the product, and the call is refused. A caller
  without the role is refused on the pending order 10.
\<close>

theorem add_product_twice_counterexample:
  "order_items_of
     (fst (add_product_to_order
        (fst (add_product_to_order ex_order_db ex_admin 13 (Some (ex_order_request 5 1))))
        ex_admin 13 (Some (ex_order_request 5 2)))) 13 5
     = [\<lparr>soi_id = 1, soi_order_id = 13, soi_product_id = 5, soi_quantity = 8,
         soi_unit_price = Some 700\<rparr>]
   \<and> add_product_to_order ex_order_db ex_admin 12 (Some (ex_order_request 5 1))
       = (ex_order_db, Order_error 400 msg_other_supplier)
   \<and> add_product_to_order ex_order_db ex_user 10 (Some (ex_order_request 5 1))
       = (ex_order_db, Order_error 403 msg_no_permission)"
  by code_simp

text \<open>
  C6, amended. A caller who may edit orders adds an active product twice, with positive
  quantities, to a pending order that holds no item for the product and whose items all
  have a unit price, the product being related to the order's supplier at both calls
  (prices may change between the calls). At each call the supplier's cost, or else the
  sale price, resolves to a price, and the store can hold the item written: the first
  quantity with the first price, then the sum of the quantities with the second price.
  Then both calls succeed, the first creating and the second updating; the order has
  exactly one item for the product, appended to the items there were, whose quantity is
  the sum of the two quantities and whose unit price is the one resolved at the second
  call.
\<close>

theorem add_product_twice:
  assumes perm: "may_edit_orders u"
    and ok: "distinct (map so_id (supplier_orders d))" "order \<in> set (supplier_orders d)"
      "so_status order = ''PENDING''"
    and pk: "distinct (map p_id (products d))" "p \<in> set (products d)" "p_is_active p"
    and ps: "find (\<lambda>ps. ps_product_id ps = p_id p \<and> ps_supplier_id ps = so_supplier_id order)
               (product_suppliers d) = Some ps"
    and new: "order_items_of d (so_id order) (p_id p) = []"
    and pr: "order_priced d (so_id order)"
    and q: "0 < q1" "0 < q2"
    and st1: "item_storable d q1 (resolve_unit_price ps p)"
    and first: "add_product_to_order d u (so_id order)
                  (Some \<lparr>req_product_id = Some (p_id p), req_quantity = Some q1\<rparr>) = (d1, r1)"
    and pk': "distinct (map p_id prods')" "p' \<in> set prods'" "p_is_active p'" "p_id p' = p_id p"
    and ps': "find (\<lambda>ps. ps_product_id ps = p_id p \<and> ps_supplier_id ps = so_supplier_id order)
               pss' = Some ps'"
    and st2: "item_storable d (q1 + q2) (resolve_unit_price ps' p')"
    and second: "add_product_to_order (d1\<lparr>products := prods', product_suppliers := pss'\<rparr>) u
                  (so_id order)
                  (Some \<lparr>req_product_id = Some (p_id p), req_quantity = Some q2\<rparr>) = (d2, r2)"
  shows "order_items_of d2 (so_id order) (p_id p) =
           [\<lparr>soi_id = new_id (map soi_id (supplier_order_items d)),
             soi_order_id = so_id order, soi_product_id = p_id p, soi_quantity = q1 + q2,
             soi_unit_price = resolve_unit_price ps' p'\<rparr>]
         \<and> supplier_order_items d2 = supplier_order_items d @
              order_items_of d2 (so_id order) (p_id p)
         \<and> (\<exists>res1 res2. r1 = Order_success res1 \<and> res_action res1 = ''created''
               \<and> r2 = Order_success res2 \<and> res_action res2 = ''updated'')"
proof -
  let ?item1 = "\<lparr>soi_id = new_id (map soi_id (supplier_order_items d)),
                 soi_order_id = so_id order, soi_product_id = p_id p, soi_quantity = q1,
                 soi_unit_price = resolve_unit_price ps p\<rparr>"
  let ?item2 = "\<lparr>soi_id = new_id (map soi_id (supplier_order_items d)),
                 soi_order_id = so_id order, soi_product_id = p_id p, soi_quantity = q1 + q2,
                 soi_unit_price = resolve_unit_price ps' p'\<rparr>"
  from add_product_creates [OF perm ok pk ps new q(1) st1 pr] first
  obtain res1 where d1: "d1 = d\<lparr>supplier_order_items := supplier_order_items d @ [?item1]\<rparr>"
    and r1: "r1 = Order_success res1" "res_action res1 = ''created''" by auto
  let ?d = "d1\<lparr>products := prods', product_suppliers := pss'\<rparr>"
  have ok': "distinct (map so_id (supplier_orders ?d))" "order \<in> set (supplier_orders ?d)"
    using ok by (simp_all add: d1)
  have pk2: "distinct (map p_id (products ?d))" "p' \<in> set (products ?d)"
    using pk' by simp_all
  have ps2: "find (\<lambda>ps. ps_product_id ps = p_id p' \<and> ps_supplier_id ps = so_supplier_id order)
               (product_suppliers ?d) = Some ps'"
    using ps' pk'(4) by simp
  have i1: "supplier_order_items ?d = supplier_order_items d @ [?item1]" by (simp add: d1)
  have i2: "order_items_of (?d\<lparr>supplier_order_items := supplier_order_items d\<rparr>)
              (so_id order) (p_id p') = []"
    using new pk'(4) by (simp add: order_items_of_def)
  have i3: "soi_order_id ?item1 = so_id order" "soi_product_id ?item1 = p_id p'"
    using pk'(4) by simp_all
  have i4: "\<forall>i \<in> set (supplier_order_items d). soi_id i \<noteq> soi_id ?item1"
    using new_id_fresh [of _ "map soi_id (supplier_order_items d)"] by fastforce
  have st2': "item_storable ?d (soi_quantity ?item1 + q2) (resolve_unit_price ps' p')"
    using st2 by (simp add: item_storable_def d1 split: option.splits)
  have pr': "order_priced (?d\<lparr>supplier_order_items := supplier_order_items d\<rparr>) (so_id order)"
    using pr by (simp add: order_priced_def)
  from add_product_updates [OF perm ok' ok(3) pk2 pk'(3) ps2 i1 i2 i3 i4 q(2) st2' pr']
    second pk'(4)
  obtain res2 where d2: "d2 = ?d\<lparr>supplier_order_items := supplier_order_items d @ [?item2]\<rparr>"
    and r2: "r2 = Order_success res2" "res_action res2 = ''updated''" by auto
  have items: "supplier_order_items d2 = supplier_order_items d @ [?item2]" by (simp add: d2)
  from new have "filter (\<lambda>i. soi_order_id i = so_id order \<and> soi_product_id i = p_id p)
                   (supplier_order_items d) = []" by (simp add: order_items_of_def)
  then have f: "order_items_of d2 (so_id order) (p_id p) = [?item2]"
    by (simp add: order_items_of_def items)
  show ?thesis using f items r1 r2 by simp
qed

theorem add_product_twice_witness:
  "order_items_of
     (fst (add_product_to_order
        ((fst (add_product_to_order ex_order_db ex_admin 10 (Some (ex_order_request 5 3))))
           \<lparr>products := products ex_order_db,
            product_suppliers := [\<lparr>ps_product_id = 5, ps_supplier_id = 1, ps_costo = Some 750\<rparr>]\<rparr>)
        ex_admin 10 (Some (ex_order_request 5 4)))) 10 5
     = [\<lparr>soi_id = 2, soi_order_id = 10, soi_product_id = 5, soi_quantity = 7,
         soi_unit_price = Some 750\<rparr>]"
proof -
  let ?ps = "\<lparr>ps_product_id = 5, ps_supplier_id = 1, ps_costo = Some 700\<rparr>"
  let ?ps' = "\<lparr>ps_product_id = 5, ps_supplier_id = 1, ps_costo = Some 750\<rparr>"
  let ?first = "add_product_to_order ex_order_db ex_admin 10 (Some (ex_order_request 5 3))"
  let ?second = "add_product_to_order
        ((fst ?first)\<lparr>products := products ex_order_db, product_suppliers := [?ps']\<rparr>)
        ex_admin 10 (Some (ex_order_request 5 4))"
  have h1: "may_edit_orders ex_admin" by code_simp
  have h2: "distinct (map so_id (supplier_orders ex_order_db))" by code_simp
  have h3: "ex_pending_order \<in> set (supplier_orders ex_order_db)" by code_simp
  have h4: "so_status ex_pending_order = ''PENDING''" by code_simp
  have h5: "distinct (map p_id (products ex_order_db))" by code_simp
  have h6: "ex_tea \<in> set (products ex_order_db)" by code_simp
  have h7: "p_is_active ex_tea" by code_simp
  have h8: "find (\<lambda>ps. ps_product_id ps = p_id ex_tea \<and> ps_supplier_id ps = so_supplier_id ex_pending_order)
               (product_suppliers ex_order_db) = Some ?ps" by code_simp
  have h9: "order_items_of ex_order_db (so_id ex_pending_order) (p_id ex_tea) = []" by code_simp
  have h9': "order_priced ex_order_db (so_id ex_pending_order)" by code_simp
  have h10: "(0::int) < 3" "(0::int) < 4" by simp_all
  have s1: "item_storable ex_order_db 3 (resolve_unit_price ?ps ex_tea)" by code_simp
  have s2: "item_storable ex_order_db (3 + 4) (resolve_unit_price ?ps' ex_tea)" by code_simp
  have e1: "so_id ex_pending_order = 10" by code_simp
  have e2: "ex_order_request 5 3 = \<lparr>req_product_id = Some (p_id ex_tea), req_quantity = Some 3\<rparr>"
    by code_simp
  have e3: "ex_order_request 5 4 = \<lparr>req_product_id = Some (p_id ex_tea), req_quantity = Some 4\<rparr>"
    by code_simp
  have h11: "add_product_to_order ex_order_db ex_admin (so_id ex_pending_order)
               (Some \<lparr>req_product_id = Some (p_id ex_tea), req_quantity = Some 3\<rparr>)
             = (fst ?first, snd ?first)" by (simp add: e1 e2)
  have h12: "p_id ex_tea = p_id ex_tea" by simp
  have h13: "find (\<lambda>ps. ps_product_id ps = p_id ex_tea \<and> ps_supplier_id ps = so_supplier_id ex_pending_order)
               [?ps'] = Some ?ps'" by code_simp
  have h14: "add_product_to_order
               ((fst ?first)\<lparr>products := products ex_order_db, product_suppliers := [?ps']\<rparr>)
               ex_admin (so_id ex_pending_order)
               (Some \<lparr>req_product_id = Some (p_id ex_tea), req_quantity = Some 4\<rparr>)
             = (fst ?second, snd ?second)" by (simp add: e1 e3)
  have v1: "new_id (map soi_id (supplier_order_items ex_order_db)) = 2" by code_simp
  have v2: "resolve_unit_price ?ps' ex_tea = Some 750" by code_simp
  have v3: "p_id ex_tea = 5" by code_simp
  from add_product_twice [OF h1 h2 h3 h4 h5 h6 h7 h8 h9 h9' h10 s1 h11 h5 h6 h7 h12 h13 s2 h14]
  have "order_items_of (fst ?second) (so_id ex_pending_order) (p_id ex_tea) =
           [\<lparr>soi_id = new_id (map soi_id (supplier_order_items ex_order_db)),
             soi_order_id = so_id ex_pending_order, soi_product_id = p_id ex_tea,
             soi_quantity = 3 + 4, soi_unit_price = resolve_unit_price ?ps' ex_tea\<rparr>]"
    by (rule conjunct1)
  then show ?thesis by (simp add: v1 v2 v3 e1)
qed

text \<open>
  A quantity that the column of the order items cannot hold is answered with a server
  error and nothing is saved. So is a product that has neither a cost with the supplier
  nor a sale price, when the unit price of an item may not be missing; when it may, the
  item is saved and the listing of the order raises on its subtotal.
\<close>

lemma add_product_out_of_range_example:
  "add_product_to_order ex_order_db ex_admin 10 (Some (ex_order_request 5 100000000000000000000))
     = (ex_order_db, Order_server_error OutOfRange)"
  by code_simp

lemma add_product_unpriced_example:
  "add_product_to_order ex_unpriced_db ex_admin 10 (Some (ex_order_request 5 1))
     = (ex_unpriced_db, Order_server_error IntegrityError)
   \<and> add_product_to_order (ex_unpriced_db\<lparr>schema := ex_schema\<lparr>unit_price_nullable := True\<rparr>\<rparr>)
         ex_admin 10 (Some (ex_order_request 5 1))
     = (ex_unpriced_db
          \<lparr>schema := ex_schema\<lparr>unit_price_nullable := True\<rparr>,
           supplier_order_items := supplier_order_items ex_unpriced_db @
             [\<lparr>soi_id = 2, soi_order_id = 10, soi_product_id = 5, soi_quantity = 1,
               soi_unit_price = None\<rparr>]\<rparr>,
        Order_server_error TypeError)"
  by code_simp

text \<open>
  C7, as stated, fails for a caller without the role: the received order 11 is left as
  it was, but the answer is the permission error (status 403), not a validation error.
\<close>

theorem add_product_not_pending_counterexample:
  "so_status ex_received_order \<noteq> ''PENDING''
   \<and> add_product_to_order ex_order_db ex_user (so_id ex_received_order) (Some (ex_order_request 5 3))
       = (ex_order_db, Order_error 403 msg_no_permission)"
  by code_simp

text \<open>
  C7, amended. For every supplier order whose status is not \<^verbatim>\<open>PENDING\<close>,
  \<^verbatim>\<open>add_product_to_order\<close> fails and returns the store, and so the items of the order, as
  it was: with the validation error (status 400) for a caller who may edit orders, and with
  the permission error (status 403) for any other caller.
\<close>

theorem add_product_not_pending:
  assumes "distinct (map so_id (supplier_orders d))" "order \<in> set (supplier_orders d)"
    and "so_status order \<noteq> ''PENDING''"
  shows "add_product_to_order d u (so_id order) body =
           (d, if may_edit_orders u then Order_error 400 msg_not_pending
               else Order_error 403 msg_no_permission)"
  using assms(3) by (simp add: add_product_to_order_def get_order_found [OF assms(1,2)])

theorem add_product_not_pending_witness:
  "add_product_to_order ex_order_db ex_admin 11 (Some (ex_order_request 5 3))
     = (ex_order_db, Order_error 400 msg_not_pending)"
proof -
  have h1: "distinct (map so_id (supplier_orders ex_order_db))" by code_simp
  have h2: "ex_received_order \<in> set (supplier_orders ex_order_db)" by code_simp
  have h3: "so_status ex_received_order \<noteq> ''PENDING''" by code_simp
  have e1: "so_id ex_received_order = 11" by code_simp
  have e2: "may_edit_orders ex_admin" by code_simp
  from add_product_not_pending [OF h1 h2 h3, of ex_admin "Some (ex_order_request 5 3)"]
  show ?thesis by (simp add: e1 e2)
qed

section \<open>Read-only endpoints: properties\<close>

subsection \<open>Auxiliary facts\<close>

lemma product_result_stock:
  "pe_id (product_result d p) = p_id p"
  "pe_stock (product_result d p) = sum_list (map inv_quantity (rows_of d (p_id p)))"
  by (simp_all add: product_result_def total_stock_def rows_of_def)

lemma stock_info_rows:
  "map (\<lambda>e. (se_zone_id e, se_stock e)) (get_product_stock_info d pid) =
   map (\<lambda>r. (inv_zone_id r, inv_quantity r))
     (filter (\<lambda>r. 0 < inv_quantity r \<and> (\<exists>z \<in> set (zones d). z_id z = inv_zone_id r))
        (rows_of d pid))"
proof -
  have step: "List.map_filter
           (\<lambda>item. case find (\<lambda>z. z_id z = inv_zone_id item) zs of
                      None \<Rightarrow> None
                    | Some zone \<Rightarrow>
                        Some \<lparr>se_zone_id = z_id zone, se_zone_name = z_label zone,
                              se_stock = inv_quantity item\<rparr>) rows
        = map (\<lambda>r. \<lparr>se_zone_id = inv_zone_id r,
                     se_zone_name = z_label (the (find (\<lambda>z. z_id z = inv_zone_id r) zs)),
                     se_stock = inv_quantity r\<rparr>)
            (filter (\<lambda>r. \<exists>z \<in> set zs. z_id z = inv_zone_id r) rows)" for zs rows
  proof (induction rows)
    case Nil
    show ?case by (simp add: List.map_filter_simps)
  next
    case (Cons r rows)
    show ?case
    proof (cases "find (\<lambda>z. z_id z = inv_zone_id r) zs")
      case None
      then have "\<not> (\<exists>z \<in> set zs. z_id z = inv_zone_id r)" by (simp add: find_None_iff)
      with None Cons show ?thesis by (simp add: List.map_filter_simps)
    next
      case (Some z)
      then have "z \<in> set zs" "z_id z = inv_zone_id r"
        by (auto simp: find_Some_iff)
      with Some Cons show ?thesis by (auto simp: List.map_filter_simps)
    qed
  qed
  show ?thesis
    unfolding get_product_stock_info_def rows_of_def Let_def step
    by (simp add: comp_def conj_commute cong: conj_cong)
qed

lemma search_results_active:
  "fst (search_products_for_sale d params) = Search_success es \<Longrightarrow> e \<in> set es \<Longrightarrow>
   \<exists>p \<in> set (products d). p_is_active p \<and> e = product_result d p"
proof -
  assume r: "fst (search_products_for_sale d params) = Search_success es" and e: "e \<in> set es"
  let ?found = "take 10
              (filter (\<lambda>p. (icontains (search_text params) (p_name p)
                            \<or> icontains (search_text params) (p_sku p)) \<and> p_is_active p)
                 (products d))"
  from r e have "e \<in> product_result d ` set ?found"
    by (auto simp: search_products_for_sale_def Let_def split: if_splits)
  then obtain p where p: "p \<in> set ?found" and "e = product_result d p" by auto
  moreover from p have "p \<in> set (products d) \<and> p_is_active p"
    by (auto dest!: in_set_takeD)
  ultimately show ?thesis by blast
qed

lemma listing_results_active:
  assumes "get_all_products_for_sale d lparams = Inr l" "e \<in> set (l_products l)"
  shows "\<exists>p \<in> set (products d). p_is_active p \<and> e = product_result d p"
proof -
  from assms obtain n m where
    "e \<in> product_result d ` set (drop n (take m (sort_key p_name (filter p_is_active (products d)))))"
    by (auto simp: get_all_products_for_sale_def Let_def split: sum.splits if_splits)
  then obtain p where "p \<in> set (drop n (take m (sort_key p_name (filter p_is_active (products d)))))"
    and e: "e = product_result d p" by auto
  then have "p \<in> set (sort_key p_name (filter p_is_active (products d)))"
    by (meson in_set_dropD in_set_takeD)
  then have "p \<in> set (products d)" "p_is_active p" by simp_all
  with e show ?thesis by blast
qed

subsection \<open>The claims about the read-only endpoints\<close>

text \<open>
  C9. Every product reported by the search and by the listing is an active product of
  the store, and its stock is the sum of the quantities of all its inventory rows, whatever
  their quantity; the stock lookup lists, in order, exactly the rows of the product whose
  quantity is above zero (joined with their zone).
\<close>

theorem stock_conventions:
  "(\<forall>es. fst (search_products_for_sale d params) = Search_success es \<longrightarrow>
      (\<forall>e \<in> set es. \<exists>p \<in> set (products d). p_is_active p \<and> pe_id e = p_id p \<and>
         pe_stock e = sum_list (map inv_quantity (rows_of d (p_id p)))))
   \<and> (\<forall>l. get_all_products_for_sale d lparams = Inr l \<longrightarrow>
      (\<forall>e \<in> set (l_products l). \<exists>p \<in> set (products d). p_is_active p \<and> pe_id e = p_id p \<and>
         pe_stock e = sum_list (map inv_quantity (rows_of d (p_id p)))))
   \<and> map (\<lambda>e. (se_zone_id e, se_stock e)) (get_product_stock_info d pid) =
       map (\<lambda>r. (inv_zone_id r, inv_quantity r))
         (filter (\<lambda>r. 0 < inv_quantity r \<and> (\<exists>z \<in> set (zones d). z_id z = inv_zone_id r))
            (rows_of d pid))"
proof (intro conjI allI impI ballI)
  fix es e
  assume "fst (search_products_for_sale d params) = Search_success es" "e \<in> set es"
  then obtain p where "p \<in> set (products d)" "p_is_active p" "e = product_result d p"
    using search_results_active by blast
  then show "\<exists>p \<in> set (products d). p_is_active p \<and> pe_id e = p_id p \<and>
         pe_stock e = sum_list (map inv_quantity (rows_of d (p_id p)))"
    using product_result_stock by blast
next
  fix l e
  assume "get_all_products_for_sale d lparams = Inr l" "e \<in> set (l_products l)"
  then obtain p where "p \<in> set (products d)" "p_is_active p" "e = product_result d p"
    using listing_results_active by blast
  then show "\<exists>p \<in> set (products d). p_is_active p \<and> pe_id e = p_id p \<and>
         pe_stock e = sum_list (map inv_quantity (rows_of d (p_id p)))"
    using product_result_stock by blast
next
  show "map (\<lambda>e. (se_zone_id e, se_stock e)) (get_product_stock_info d pid) =
       map (\<lambda>r. (inv_zone_id r, inv_quantity r))
         (filter (\<lambda>r. 0 < inv_quantity r \<and> (\<exists>z \<in> set (zones d). z_id z = inv_zone_id r))
            (rows_of d pid))"
    by (rule stock_info_rows)
qed

theorem stock_conventions_witness:
  "(\<exists>p \<in> set (products ex_stock_db). p_is_active p \<and> pe_id ex_tea_entry = p_id p \<and>
       pe_stock ex_tea_entry = sum_list (map inv_quantity (rows_of ex_stock_db (p_id p))))
   \<and> fst (search_products_for_sale ex_stock_db (ex_search ''te'')) = Search_success [ex_tea_entry]
   \<and> get_all_products_for_sale ex_stock_db \<lparr>param_page = Absent, param_page_size = Absent\<rparr>
       = Inr ex_listing
   \<and> map (\<lambda>e. (se_zone_id e, se_stock e)) (get_product_stock_info ex_stock_db 5) = [(2, 10)]"
proof -
  have h1: "fst (search_products_for_sale ex_stock_db (ex_search ''te'')) = Search_success [ex_tea_entry]"
    by code_simp
  have h2: "get_all_products_for_sale ex_stock_db \<lparr>param_page = Absent, param_page_size = Absent\<rparr>
       = Inr ex_listing" by code_simp
  have h3: "ex_tea_entry \<in> set [ex_tea_entry]" by simp
  have h4: "map (\<lambda>r. (inv_zone_id r, inv_quantity r))
         (filter (\<lambda>r. 0 < inv_quantity r \<and> (\<exists>z \<in> set (zones ex_stock_db). z_id z = inv_zone_id r))
            (rows_of ex_stock_db 5)) = [(2, 10)]" by code_simp
  note t = stock_conventions [of ex_stock_db "ex_search ''te''"
      "\<lparr>param_page = Absent, param_page_size = Absent\<rparr>" 5]
  from t h1 h3 have c1: "\<exists>p \<in> set (products ex_stock_db). p_is_active p \<and> pe_id ex_tea_entry = p_id p \<and>
       pe_stock ex_tea_entry = sum_list (map inv_quantity (rows_of ex_stock_db (p_id p)))"
    by blast
  from t h4 have c3: "map (\<lambda>e. (se_zone_id e, se_stock e)) (get_product_stock_info ex_stock_db 5) = [(2, 10)]"
    by simp
  from c1 h1 h2 c3 show ?thesis by blast
qed

text \<open>
  In the sample store the product has rows of ten, zero and minus three units: the
  search reports seven, the stock lookup lists the row of ten.
\<close>

lemma stock_conventions_example:
  "map pe_stock [ex_tea_entry] = [7]
   \<and> map inv_quantity (rows_of ex_stock_db 5) = [10, 0, - 3]
   \<and> get_product_stock_info ex_stock_db 5
       = [\<lparr>se_zone_id = 2, se_zone_name = ''Sala de VENTAS (en Central)'', se_stock = 10\<rparr>]"
  by code_simp

text \<open>
  C10. When the search text has fewer than two characters the response is a success
  with no product, whatever the store holds, and no table is queried.
\<close>

theorem search_short_query:
  "length (search_text params) < 2 \<Longrightarrow>
   search_products_for_sale d params = (Search_success [], [])"
  by (simp add: search_products_for_sale_def)

theorem search_short_query_witness:
  "search_text (ex_search ''t'') = ''t''
   \<and> search_products_for_sale ex_stock_db (ex_search ''t'') = (Search_success [], [])"
proof -
  have h: "length (search_text (ex_search ''t'')) < 2" by code_simp
  have t: "search_text (ex_search ''t'') = ''t''" by code_simp
  from search_short_query [OF h, of ex_stock_db] t show ?thesis by simp
qed

text \<open>
  With two characters the product table and the inventory are queried.
\<close>

lemma search_two_characters_example:
  "search_products_for_sale ex_stock_db (ex_search ''te'')
     = (Search_success [ex_tea_entry], [Product, Inventory])"
  by code_simp

end
